theory Spec2Isabelle
  imports Complex_Main
begin

section \<open>Python values used by mdsim\<close>

text \<open>
  The two modules of mdsim, \<^verbatim>\<open>simulation.py\<close> (class \<^verbatim>\<open>MDSimulation\<close>) and
  \<^verbatim>\<open>traj_analyzer.py\<close> (class \<^verbatim>\<open>TrajectoryAnalyzer\<close>), are embedded as functions on
  explicit states. An exception is a value of type \<open>error\<close>; a method that can raise
  returns \<open>(error + 'a) \<times> state\<close>, the state being the one the exception leaves behind.
  A \<^verbatim>\<open>numpy.float64\<close> is modelled as a \<open>real\<close>: rounding, \<^verbatim>\<open>inf\<close> and \<^verbatim>\<open>nan\<close> are
  abstracted away.
\<close>

datatype error =
  ValueError string
| IndexError
| TypeError
| KeyError
| ExternalError string

subsection \<open>Statements that may raise, on a state\<close>

type_synonym ('s, 'a) prog = "'s \<Rightarrow> (error + 'a) \<times> 's"

definition succeed :: "'a \<Rightarrow> ('s, 'a) prog" where
  "succeed x = (\<lambda>s. (Inr x, s))"

definition raise :: "error \<Rightarrow> ('s, 'a) prog" where
  "raise e = (\<lambda>s. (Inl e, s))"

definition and_then :: "('s, 'a) prog \<Rightarrow> ('a \<Rightarrow> ('s, 'b) prog) \<Rightarrow> ('s, 'b) prog" where
  "and_then m f = (\<lambda>s. case m s of (Inl e, s') \<Rightarrow> (Inl e, s') | (Inr x, s') \<Rightarrow> f x s')"

definition lift_result :: "error + 'a \<Rightarrow> ('s, 'a) prog" where
  "lift_result r = (\<lambda>s. (r, s))"

subsection \<open>numpy arrays of floats\<close>

text \<open>
  An \<^verbatim>\<open>ndarray\<close> is its shape and its elements in row-major order; numpy keeps
  \<open>length (nd_data a) = prod_list (nd_shape a)\<close>.
\<close>

record ndarray =
  nd_shape :: "nat list"
  nd_data :: "real list"

definition nd_wf :: "ndarray \<Rightarrow> bool" where
  "nd_wf a = (length (nd_data a) = prod_list (nd_shape a))"

text \<open>\<^verbatim>\<open>np.zeros(shape)\<close>: a negative dimension raises ValueError.\<close>

definition np_zeros :: "int list \<Rightarrow> error + ndarray" where
  "np_zeros dims =
     (if list_ex (\<lambda>d. d < 0) dims then Inl (ValueError ''negative dimensions are not allowed'')
      else Inr \<lparr>nd_shape = map nat dims, nd_data = replicate (prod_list (map nat dims)) 0\<rparr>)"

text \<open>An integer index on an axis of length \<open>n\<close>: negative indices count from the end.\<close>

definition np_index :: "nat \<Rightarrow> int \<Rightarrow> nat option" where
  "np_index n i =
     (if 0 \<le> i \<and> i < int n then Some (nat i)
      else if - int n \<le> i \<and> i < 0 then Some (nat (int n + i))
      else None)"

text \<open>
  Broadcasting. \<open>src_index tgt src i\<close> is the position, in an array of shape \<open>src\<close>, of the
  element that lands at position \<open>i\<close> of an array of shape \<open>tgt\<close> (both row-major, shapes
  of equal length, every dimension of \<open>src\<close> equal to that of \<open>tgt\<close> or 1).
\<close>

fun src_index :: "nat list \<Rightarrow> nat list \<Rightarrow> nat \<Rightarrow> nat" where
  "src_index (n # ns) (k # ks) i =
     (if k = 1 then 0 else (i div prod_list ns) * prod_list ks) + src_index ns ks (i mod prod_list ns)"
| "src_index _ _ i = 0"

definition pad_shape :: "nat \<Rightarrow> nat list \<Rightarrow> nat list" where
  "pad_shape n s = replicate (n - length s) 1 @ s"

text \<open>An assignment drops leading dimensions of size 1 that the target does not have.\<close>

fun strip_ones :: "nat \<Rightarrow> nat list \<Rightarrow> nat list" where
  "strip_ones n [] = []"
| "strip_ones n (k # ks) = (if n < length (k # ks) \<and> k = 1 then strip_ones n ks else k # ks)"

definition broadcast_to :: "nat list \<Rightarrow> ndarray \<Rightarrow> real list option" where
  "broadcast_to tgt v =
     (let src = strip_ones (length tgt) (nd_shape v) in
      if length src \<le> length tgt \<and> list_all2 (\<lambda>n k. k = n \<or> k = 1) tgt (pad_shape (length tgt) src)
      then Some (map (\<lambda>i. nd_data v ! src_index tgt (pad_shape (length tgt) src) i) [0..<prod_list tgt])
      else None)"

text \<open>
  \<^verbatim>\<open>a[idx] = v\<close> and \<^verbatim>\<open>a[idx, ...] = v\<close> for an index on the first axis. The index is
  resolved first (IndexError), then \<open>v\<close> is broadcast into the slot (ValueError). The
  index \<^verbatim>\<open>None\<close> is \<^verbatim>\<open>np.newaxis\<close>: the assignment then fills the whole array.
\<close>

definition np_setitem :: "ndarray \<Rightarrow> int option \<Rightarrow> ndarray \<Rightarrow> error + ndarray" where
  "np_setitem a idx v =
     (case idx of
        None \<Rightarrow>
          (case broadcast_to (1 # nd_shape a) v of
             None \<Rightarrow> Inl (ValueError ''could not broadcast input array'')
           | Some r \<Rightarrow> Inr (a\<lparr>nd_data := r\<rparr>))
      | Some i \<Rightarrow>
          (case nd_shape a of
             [] \<Rightarrow> Inl IndexError
           | n # rest \<Rightarrow>
               (case np_index n i of
                  None \<Rightarrow> Inl IndexError
                | Some k \<Rightarrow>
                    (case broadcast_to rest v of
                       None \<Rightarrow> Inl (ValueError ''could not broadcast input array'')
                     | Some r \<Rightarrow>
                         Inr (a\<lparr>nd_data := take (k * prod_list rest) (nd_data a) @ r
                                   @ drop (Suc k * prod_list rest) (nd_data a)\<rparr>)))))"

text \<open>The elements of slot \<open>k\<close> of the first axis, \<^verbatim>\<open>a[k]\<close> flattened.\<close>

definition np_slot :: "ndarray \<Rightarrow> nat \<Rightarrow> real list" where
  "np_slot a k = take (prod_list (tl (nd_shape a))) (drop (k * prod_list (tl (nd_shape a))) (nd_data a))"

text \<open>Elementwise binary operations broadcast both operands to a common shape.\<close>

fun broadcast_dims :: "nat list \<Rightarrow> nat list \<Rightarrow> nat list option" where
  "broadcast_dims [] [] = Some []"
| "broadcast_dims (a # as) (b # bs) =
     (case broadcast_dims as bs of
        None \<Rightarrow> None
      | Some r \<Rightarrow> if a = b then Some (a # r) else if a = 1 then Some (b # r)
                  else if b = 1 then Some (a # r) else None)"
| "broadcast_dims _ _ = None"

definition broadcast_shapes :: "nat list \<Rightarrow> nat list \<Rightarrow> nat list option" where
  "broadcast_shapes s t =
     broadcast_dims (pad_shape (max (length s) (length t)) s) (pad_shape (max (length s) (length t)) t)"

definition np_binop :: "(real \<Rightarrow> real \<Rightarrow> real) \<Rightarrow> ndarray \<Rightarrow> ndarray \<Rightarrow> error + ndarray" where
  "np_binop f x y =
     (case broadcast_shapes (nd_shape x) (nd_shape y) of
        None \<Rightarrow> Inl (ValueError ''operands could not be broadcast together'')
      | Some rs \<Rightarrow>
          Inr \<lparr>nd_shape = rs,
               nd_data = map (\<lambda>i. f (nd_data x ! src_index rs (pad_shape (length rs) (nd_shape x)) i)
                                     (nd_data y ! src_index rs (pad_shape (length rs) (nd_shape y)) i))
                             [0..<prod_list rs]\<rparr>)"

definition np_scale :: "real \<Rightarrow> ndarray \<Rightarrow> ndarray" where
  "np_scale c x = x\<lparr>nd_data := map (\<lambda>v. c * v) (nd_data x)\<rparr>"

text \<open>
  A reduction along one axis: the array is seen as \<open>outer \<times> c \<times> inner\<close>, and \<open>f\<close> folds the
  \<open>c\<close> elements of each line. An axis the array does not have raises (numpy's AxisError,
  a ValueError).
\<close>

definition reduce_lines :: "(real list \<Rightarrow> real) \<Rightarrow> nat \<Rightarrow> nat \<Rightarrow> nat \<Rightarrow> real list \<Rightarrow> real list" where
  "reduce_lines f outer c inner d =
     concat (map (\<lambda>oi. map (\<lambda>r. f (map (\<lambda>j. d ! ((oi * c + j) * inner + r)) [0..<c])) [0..<inner])
                 [0..<outer])"

definition np_reduce :: "(real list \<Rightarrow> real) \<Rightarrow> nat \<Rightarrow> ndarray \<Rightarrow> error + ndarray" where
  "np_reduce f axis x =
     (if length (nd_shape x) \<le> axis then Inl (ValueError ''axis is out of bounds'')
      else Inr \<lparr>nd_shape = take axis (nd_shape x) @ drop (Suc axis) (nd_shape x),
                nd_data = reduce_lines f (prod_list (take axis (nd_shape x))) (nd_shape x ! axis)
                            (prod_list (drop (Suc axis) (nd_shape x))) (nd_data x)\<rparr>)"

definition line_norm :: "real list \<Rightarrow> real" where
  "line_norm xs = sqrt (sum_list (map (\<lambda>x. x * x) xs))"

definition line_mean :: "real list \<Rightarrow> real" where
  "line_mean xs = sum_list xs / real (length xs)"

subsection \<open>The store of arrays\<close>

text \<open>
  Arrays are objects: the driver, the trajectory and the caller share them by reference.
  The store is the list of all float arrays created so far; an address is a position in
  it, and a new array gets the next one.
\<close>

type_synonym addr = nat
type_synonym heap = "ndarray list"

section \<open>External capabilities\<close>

text \<open>
  The unit library \<^verbatim>\<open>duq\<close>, the force field (\<^verbatim>\<open>mdforce\<close>) and the integrator
  (\<^verbatim>\<open>numintegrator\<close>) are other packages; the ensemble generator, the element table
  \<^verbatim>\<open>data\<close> and \<^verbatim>\<open>helpers.convert_to_unit\<close> belong to mdsim but are not in the two
  modules. All are parameters of the model: records of the operations the code calls on
  them.
\<close>

subsection \<open>Units\<close>

text \<open>A unit argument or attribute is \<^verbatim>\<open>None\<close>, a label or a \<^verbatim>\<open>duq.Unit\<close>.\<close>

datatype 'u pyunit = PyNone | PyStr string | PyUnit 'u

record 'u UnitSystem =
  duq_Unit :: "string \<Rightarrow> error + 'u"
  unit_times :: "'u \<Rightarrow> 'u \<Rightarrow> 'u"
  unit_over :: "'u \<Rightarrow> 'u \<Rightarrow> 'u"
  unit_power :: "'u \<Rightarrow> int \<Rightarrow> 'u"
  boltzmann_const_convert_unit :: "'u \<Rightarrow> error + real"
  convert_to_unit :: "'u pyunit \<Rightarrow> string \<Rightarrow> string \<Rightarrow> error + 'u pyunit"
  mass_Da :: "int \<Rightarrow> real option"

text \<open>
  \<open>duq_Unit\<close> is \<^verbatim>\<open>duq.Unit(label)\<close>; \<open>boltzmann_const_convert_unit u\<close> is the value of
  \<^verbatim>\<open>duq.predefined_constants.boltzmann_const.convert_unit(u)\<close>; \<open>mass_Da z\<close> is
  \<^verbatim>\<open>data[z]["mass_Da"]\<close>, a missing key being \<open>None\<close>. The arithmetic of units is defined
  on \<^verbatim>\<open>duq.Unit\<close> objects; on \<^verbatim>\<open>None\<close> or a label it raises TypeError.
\<close>

definition py_times :: "'u UnitSystem \<Rightarrow> 'u pyunit \<Rightarrow> 'u pyunit \<Rightarrow> error + 'u pyunit" where
  "py_times us a b =
     (case a of PyUnit x \<Rightarrow> (case b of PyUnit y \<Rightarrow> Inr (PyUnit (unit_times us x y)) | _ \<Rightarrow> Inl TypeError)
      | _ \<Rightarrow> Inl TypeError)"

definition py_over :: "'u UnitSystem \<Rightarrow> 'u pyunit \<Rightarrow> 'u pyunit \<Rightarrow> error + 'u pyunit" where
  "py_over us a b =
     (case a of PyUnit x \<Rightarrow> (case b of PyUnit y \<Rightarrow> Inr (PyUnit (unit_over us x y)) | _ \<Rightarrow> Inl TypeError)
      | _ \<Rightarrow> Inl TypeError)"

definition py_power :: "'u UnitSystem \<Rightarrow> 'u pyunit \<Rightarrow> int \<Rightarrow> error + 'u pyunit" where
  "py_power us a n = (case a of PyUnit x \<Rightarrow> Inr (PyUnit (unit_power us x n)) | _ \<Rightarrow> Inl TypeError)"

subsection \<open>Objects and their classes\<close>

text \<open>
  An object carries the method resolution order of \<^verbatim>\<open>type(obj)\<close>, that of
  \<^verbatim>\<open>obj.__class__\<close> (the same list unless the class overrides \<^verbatim>\<open>__class__\<close>), and its
  state. \<^verbatim>\<open>isinstance\<close> looks at both, \<^verbatim>\<open>issubclass(obj.__class__, C)\<close> at the second.
\<close>

record 'a pyobj =
  obj_type_mro :: "string list"
  obj_class_mro :: "string list"
  obj_state :: 'a

definition isinstance :: "'a pyobj \<Rightarrow> string \<Rightarrow> bool" where
  "isinstance obj c = (c \<in> set (obj_type_mro obj) \<or> c \<in> set (obj_class_mro obj))"

definition issubclass_of_class :: "'a pyobj \<Rightarrow> string \<Rightarrow> bool" where
  "issubclass_of_class obj c = (c \<in> set (obj_class_mro obj))"

definition ForceField :: string where
  "ForceField = ''mdforce.models.forcefield_superclass.ForceField''"

definition EnsembleGenerator :: string where
  "EnsembleGenerator = ''mdsim.ensemble_generator.superclass.EnsembleGenerator''"

subsection \<open>Ensemble, force field, integrator\<close>

text \<open>What the accessors of an ensemble return; \<open>ens_x\<close> is \<^verbatim>\<open>ensemble.x\<close>.\<close>

record 'u ensemble =
  ens_number_molecules_total :: int
  ens_number_atoms_total :: int
  ens_positions :: ndarray
  ens_velocities :: ndarray
  ens_box_lengths :: ndarray
  ens_unit_positions :: "'u pyunit"
  ens_unit_time :: "'u pyunit"
  ens_unit_velocities :: "'u pyunit"
  ens_atomic_numbers :: "int list"
  ens_molecule_ids :: "int list"
  ens_connectivity_matrix :: "bool list list"

text \<open>
  The methods of the force field act on its state \<open>'ff\<close>; the attributes read back after a
  call are functions of that state. \<open>ff_x\<close> is \<^verbatim>\<open>forcefield.x\<close>, \<open>ff_call\<close> is
  \<^verbatim>\<open>forcefield(q)\<close>.
\<close>

record ('ff, 'u) forcefield_class =
  ff_initialize_forcefield :: "nat list \<Rightarrow> ndarray option \<Rightarrow> ('ff, unit) prog"
  ff_fit_units_to_input_data :: "'u pyunit \<Rightarrow> 'u pyunit \<Rightarrow> ('ff, unit) prog"
  ff_call :: "ndarray \<Rightarrow> ('ff, unit) prog"
  ff_energy_coulomb :: "'ff \<Rightarrow> ndarray"
  ff_energy_lennard_jones :: "'ff \<Rightarrow> ndarray"
  ff_energy_bond_vibration :: "'ff \<Rightarrow> ndarray"
  ff_energy_angle_vibration :: "'ff \<Rightarrow> ndarray"
  ff_bond_angles :: "'ff \<Rightarrow> ndarray"
  ff_distances :: "'ff \<Rightarrow> ndarray"
  ff_acceleration :: "'ff \<Rightarrow> ndarray"
  ff_unit_energy :: "'ff \<Rightarrow> 'u pyunit"
  ff_unit_angle :: "'ff \<Rightarrow> 'u pyunit"

text \<open>
  \<^verbatim>\<open>ode.integrate\<close> is opaque: all the driver sees of it is the sequence of calls it makes
  to the force callback, each depending on the accelerations returned so far, and then
  its result or its exception. An exception of the callback propagates through it.
\<close>

datatype integ =
  Return ndarray ndarray ndarray
| Raises error
| Calls ndarray "ndarray \<Rightarrow> integ"

type_synonym integrator = "ndarray \<Rightarrow> ndarray \<Rightarrow> real \<Rightarrow> int \<Rightarrow> integ"

section \<open>TrajectoryAnalyzer\<close>

text \<open>
  The attributes of a \<^verbatim>\<open>TrajectoryAnalyzer\<close>; \<open>t_x\<close> is \<^verbatim>\<open>self._x\<close>. A float array is
  an address in the store, an attribute that is \<^verbatim>\<open>None\<close> is \<open>None\<close>.
\<close>

record 'u TrajectoryAnalyzer =
  t_positions :: "addr option"
  t_velocities :: "addr option"
  t_timestamps :: "addr option"
  t_atomic_numbers :: "int list"
  t_molecule_ids :: "int list"
  t_connectivity_matrix :: "bool list list"
  t_energy_potential_coulomb :: "addr option"
  t_energy_potential_lennard_jones :: "addr option"
  t_energy_potential_bond_vibration :: "addr option"
  t_energy_potential_angle_vibration :: "addr option"
  t_distances_interatomic :: "addr option"
  t_bond_angles :: "addr option"
  t_masses :: addr
  t_unit_mass :: "'u pyunit"
  t_unit_length :: "'u pyunit"
  t_unit_time :: "'u pyunit"
  t_unit_velocity :: "'u pyunit"
  t_unit_energy :: "'u pyunit"
  t_unit_angle :: "'u pyunit"
  t_unit_momentum :: "'u pyunit"
  t_unit_temperature :: "'u pyunit"
  t_speeds :: "addr option"
  t_momenta :: "addr option"
  t_energy_kinetic_per_atom :: "addr option"
  t_temperature :: "addr option"
  t_energy_kinetic_total :: "addr option"
  t_energy_potential_total :: "addr option"
  t_energy_total :: "addr option"
  t_bond_lengths :: "addr option"

subsection \<open>Reading and writing attributes\<close>

definition on_object :: "('t, 'a) prog \<Rightarrow> ('t \<times> heap, 'a) prog" where
  "on_object m = (\<lambda>(t, h). case m t of (r, t') \<Rightarrow> (r, (t', h)))"

definition read_attr :: "('t \<Rightarrow> 'a) \<Rightarrow> ('t \<times> heap, 'a) prog" where
  "read_attr f = (\<lambda>(t, h). (Inr (f t), (t, h)))"

definition write_attr :: "('t \<Rightarrow> 't) \<Rightarrow> ('t \<times> heap, unit) prog" where
  "write_attr upd = (\<lambda>(t, h). (Inr (), (upd t, h)))"

definition new_array :: "ndarray \<Rightarrow> ('t \<times> heap, addr) prog" where
  "new_array a = (\<lambda>(t, h). (Inr (length h), (t, h @ [a])))"

text \<open>
  The array behind a reference. A reference held by an object is the address of an array
  that exists, so the lookup is in range; \<^verbatim>\<open>None\<close> where an array is needed raises
  TypeError.
\<close>

definition array_of :: "addr option \<Rightarrow> ('t \<times> heap, ndarray) prog" where
  "array_of r = (\<lambda>(t, h). case r of None \<Rightarrow> (Inl TypeError, (t, h)) | Some a \<Rightarrow> (Inr (h ! a), (t, h)))"

subsection \<open>Constructor and unit properties\<close>

text \<open>
  \<^verbatim>\<open>unit_mass\<close>, \<^verbatim>\<open>unit_length\<close>, \<^verbatim>\<open>unit_time\<close>: a label is replaced by its unit on first
  access. \<^verbatim>\<open>unit_velocity\<close>, \<^verbatim>\<open>unit_momentum\<close>, \<^verbatim>\<open>unit_energy\<close>: the stored value
  is returned unless it is \<^verbatim>\<open>None\<close>, in which case it is derived and stored.
\<close>

definition unit_mass :: "'u UnitSystem \<Rightarrow> ('u TrajectoryAnalyzer, 'u pyunit) prog" where
  "unit_mass us = (\<lambda>t.
     case t_unit_mass t of
       PyStr l \<Rightarrow> (case duq_Unit us l of
                    Inl e \<Rightarrow> (Inl e, t)
                  | Inr u \<Rightarrow> (Inr (PyUnit u), t\<lparr>t_unit_mass := PyUnit u\<rparr>))
     | x \<Rightarrow> (Inr x, t))"

definition unit_length :: "'u UnitSystem \<Rightarrow> ('u TrajectoryAnalyzer, 'u pyunit) prog" where
  "unit_length us = (\<lambda>t.
     case t_unit_length t of
       PyStr l \<Rightarrow> (case duq_Unit us l of
                    Inl e \<Rightarrow> (Inl e, t)
                  | Inr u \<Rightarrow> (Inr (PyUnit u), t\<lparr>t_unit_length := PyUnit u\<rparr>))
     | x \<Rightarrow> (Inr x, t))"

definition unit_time :: "'u UnitSystem \<Rightarrow> ('u TrajectoryAnalyzer, 'u pyunit) prog" where
  "unit_time us = (\<lambda>t.
     case t_unit_time t of
       PyStr l \<Rightarrow> (case duq_Unit us l of
                    Inl e \<Rightarrow> (Inl e, t)
                  | Inr u \<Rightarrow> (Inr (PyUnit u), t\<lparr>t_unit_time := PyUnit u\<rparr>))
     | x \<Rightarrow> (Inr x, t))"

definition unit_velocity :: "'u UnitSystem \<Rightarrow> ('u TrajectoryAnalyzer, 'u pyunit) prog" where
  "unit_velocity us = (\<lambda>t.
     case t_unit_velocity t of
       PyNone \<Rightarrow>
         and_then (unit_length us) (\<lambda>l.
         and_then (unit_time us) (\<lambda>tm.
         and_then (lift_result (py_over us l tm)) (\<lambda>v.
         (\<lambda>t'. (Inr v, t'\<lparr>t_unit_velocity := v\<rparr>))))) t
     | x \<Rightarrow> (Inr x, t))"

definition unit_momentum :: "'u UnitSystem \<Rightarrow> ('u TrajectoryAnalyzer, 'u pyunit) prog" where
  "unit_momentum us = (\<lambda>t.
     case t_unit_momentum t of
       PyNone \<Rightarrow>
         and_then (unit_mass us) (\<lambda>m.
         and_then (unit_velocity us) (\<lambda>v.
         and_then (lift_result (py_times us m v)) (\<lambda>p.
         (\<lambda>t'. (Inr p, t'\<lparr>t_unit_momentum := p\<rparr>))))) t
     | x \<Rightarrow> (Inr x, t))"

definition unit_energy :: "'u UnitSystem \<Rightarrow> ('u TrajectoryAnalyzer, 'u pyunit) prog" where
  "unit_energy us = (\<lambda>t.
     case t_unit_energy t of
       PyNone \<Rightarrow>
         and_then (unit_mass us) (\<lambda>m.
         and_then (unit_length us) (\<lambda>l.
         and_then (lift_result (py_power us l 2)) (\<lambda>l2.
         and_then (lift_result (py_times us m l2)) (\<lambda>ml2.
         and_then (unit_time us) (\<lambda>tm.
         and_then (lift_result (py_power us tm 2)) (\<lambda>tm2.
         and_then (lift_result (py_over us ml2 tm2)) (\<lambda>e.
         (\<lambda>t'. (Inr e, t'\<lparr>t_unit_energy := e\<rparr>))))))))) t
     | x \<Rightarrow> (Inr x, t))"

definition unit_temperature :: "('u TrajectoryAnalyzer, 'u pyunit) prog" where
  "unit_temperature = (\<lambda>t. (Inr (t_unit_temperature t), t))"

text \<open>
  \<^verbatim>\<open>np.array(list(map(lambda z: data[z]["mass_Da"], self.atomic_numbers)))\<close>: a missing
  atomic number raises KeyError.
\<close>

definition masses_of :: "'u UnitSystem \<Rightarrow> int list \<Rightarrow> error + ndarray" where
  "masses_of us zs =
     (case those (map (mass_Da us) zs) of
        None \<Rightarrow> Inl KeyError
      | Some ms \<Rightarrow> Inr \<lparr>nd_shape = [length ms], nd_data = ms\<rparr>)"

text \<open>
  \<^verbatim>\<open>TrajectoryAnalyzer.__init__\<close>. The arrays are kept by reference. The velocity, energy
  and angle units are the declared ones, passed through \<^verbatim>\<open>helpers.convert_to_unit\<close>; the
  momentum unit is computed here, through the properties \<^verbatim>\<open>unit_mass\<close> and
  \<^verbatim>\<open>unit_velocity\<close>, on the object as it is at that line (the two attributes set after
  it are still absent, written \<open>PyNone\<close>).
\<close>

definition TrajectoryAnalyzer_init ::
  "'u UnitSystem \<Rightarrow> addr option \<Rightarrow> addr option \<Rightarrow> addr option \<Rightarrow>
   int list \<Rightarrow> int list \<Rightarrow> bool list list \<Rightarrow>
   addr option \<Rightarrow> addr option \<Rightarrow> addr option \<Rightarrow> addr option \<Rightarrow> addr option \<Rightarrow> addr option \<Rightarrow>
   'u pyunit \<Rightarrow> 'u pyunit \<Rightarrow> 'u pyunit \<Rightarrow> 'u pyunit \<Rightarrow> 'u pyunit \<Rightarrow>
   (heap, 'u TrajectoryAnalyzer) prog" where
  "TrajectoryAnalyzer_init us positions velocities timestamps atomic_numbers molecule_ids
     connectivity_matrix energy_potential_coulomb energy_potential_lennard_jones
     energy_potential_bond_vibration energy_potential_angle_vibration distances_interatomic
     bond_angles unit_length_arg unit_time_arg unit_velocity_arg unit_energy_arg unit_angle_arg =
     and_then (lift_result (masses_of us atomic_numbers)) (\<lambda>masses.
     and_then (\<lambda>h. (Inr (length h), h @ [masses])) (\<lambda>a_masses.
     and_then (lift_result (duq_Unit us ''Da'')) (\<lambda>dalton.
     and_then (lift_result (convert_to_unit us unit_length_arg ''L'' ''unit_length'')) (\<lambda>ul.
     and_then (lift_result (convert_to_unit us unit_time_arg ''T'' ''unit_time'')) (\<lambda>ut.
     and_then (lift_result (convert_to_unit us unit_velocity_arg ''L.T^-1'' ''unit_velocity'')) (\<lambda>uv.
     and_then (lift_result (convert_to_unit us unit_energy_arg ''E'' ''unit_energy'')) (\<lambda>ue.
     and_then (lift_result (convert_to_unit us unit_angle_arg ''dimensionless'' ''unit_angle'')) (\<lambda>ua.
     and_then (lift_result (fst (and_then (unit_mass us) (\<lambda>m.
                                 and_then (unit_velocity us) (\<lambda>v.
                                 and_then (lift_result (py_times us m v)) (\<lambda>p.
                                 (\<lambda>t. (Inr (t\<lparr>t_unit_momentum := p\<rparr>), t)))))
        \<lparr>t_positions = positions, t_velocities = velocities, t_timestamps = timestamps,
         t_atomic_numbers = atomic_numbers, t_molecule_ids = molecule_ids,
         t_connectivity_matrix = connectivity_matrix,
         t_energy_potential_coulomb = energy_potential_coulomb,
         t_energy_potential_lennard_jones = energy_potential_lennard_jones,
         t_energy_potential_bond_vibration = energy_potential_bond_vibration,
         t_energy_potential_angle_vibration = energy_potential_angle_vibration,
         t_distances_interatomic = distances_interatomic, t_bond_angles = bond_angles,
         t_masses = a_masses, t_unit_mass = PyUnit dalton, t_unit_length = ul,
         t_unit_time = ut, t_unit_velocity = uv, t_unit_energy = ue, t_unit_angle = ua,
         t_unit_momentum = PyNone, t_unit_temperature = PyNone,
         t_speeds = None, t_momenta = None, t_energy_kinetic_per_atom = None,
         t_temperature = None, t_energy_kinetic_total = None, t_energy_potential_total = None,
         t_energy_total = None, t_bond_lengths = None\<rparr>))) (\<lambda>t.
     and_then (lift_result (duq_Unit us ''K'')) (\<lambda>kelvin.
     succeed (t\<lparr>t_unit_temperature := PyUnit kelvin\<rparr>)))))))))))"

subsection \<open>Derived quantities\<close>

text \<open>
  Modelled from the spec: the accessors \<^verbatim>\<open>velocities\<close>, \<^verbatim>\<open>masses\<close> and
  \<^verbatim>\<open>energy_potential_coulomb\<close> to \<^verbatim>\<open>energy_potential_angle_vibration\<close>, which the
  calculations read, are not defined in \<^verbatim>\<open>traj_analyzer.py\<close>. The spec has the trajectory
  expose its arrays read-only, so each returns the attribute of its name. (The same holds
  for \<^verbatim>\<open>self.atomic_numbers\<close> in the constructor.)
\<close>

definition velocities :: "('u TrajectoryAnalyzer \<times> heap, addr option) prog" where
  "velocities = read_attr t_velocities"

definition masses :: "('u TrajectoryAnalyzer \<times> heap, addr option) prog" where
  "masses = read_attr (\<lambda>t. Some (t_masses t))"

definition energy_potential_coulomb :: "('u TrajectoryAnalyzer \<times> heap, addr option) prog" where
  "energy_potential_coulomb = read_attr t_energy_potential_coulomb"

definition energy_potential_lennard_jones :: "('u TrajectoryAnalyzer \<times> heap, addr option) prog" where
  "energy_potential_lennard_jones = read_attr t_energy_potential_lennard_jones"

definition energy_potential_bond_vibration :: "('u TrajectoryAnalyzer \<times> heap, addr option) prog" where
  "energy_potential_bond_vibration = read_attr t_energy_potential_bond_vibration"

definition energy_potential_angle_vibration :: "('u TrajectoryAnalyzer \<times> heap, addr option) prog" where
  "energy_potential_angle_vibration = read_attr t_energy_potential_angle_vibration"

text \<open>
  Every derived quantity is a property of the form
  \<^verbatim>\<open>if self._x is None: self._calculate_x()\<close>, \<^verbatim>\<open>return self._x\<close>.
\<close>

definition lazy_property ::
  "('t \<Rightarrow> addr option) \<Rightarrow> ('t \<times> heap, unit) prog \<Rightarrow> ('t \<times> heap, addr option) prog" where
  "lazy_property cache calculate =
     and_then (\<lambda>(t, h). if cache t = None then calculate (t, h) else (Inr (), (t, h)))
       (\<lambda>_. read_attr cache)"

definition np_divide_scalar :: "ndarray \<Rightarrow> real \<Rightarrow> ndarray" where
  "np_divide_scalar x c = x\<lparr>nd_data := map (\<lambda>v. v / c) (nd_data x)\<rparr>"

text \<open>
  \<^verbatim>\<open>np.linalg.norm(x, axis=2)\<close>. \<^verbatim>\<open>None\<close> is taken as an array of no dimension, which
  has no axis 2.
\<close>

definition linalg_norm_axis2 :: "addr option \<Rightarrow> ('t \<times> heap, ndarray) prog" where
  "linalg_norm_axis2 x =
     (case x of
        None \<Rightarrow> raise (ValueError ''axis is out of bounds'')
      | Some a \<Rightarrow> and_then (array_of x) (\<lambda>v. lift_result (np_reduce line_norm 2 v)))"

definition calculate_speeds :: "('u TrajectoryAnalyzer \<times> heap, unit) prog" where
  "calculate_speeds =
     and_then velocities (\<lambda>a.
     and_then (linalg_norm_axis2 a) (\<lambda>r.
     and_then (new_array r) (\<lambda>a'.
     write_attr (\<lambda>t. t\<lparr>t_speeds := Some a'\<rparr>))))"

definition speeds :: "('u TrajectoryAnalyzer \<times> heap, addr option) prog" where
  "speeds = lazy_property t_speeds calculate_speeds"

definition calculate_momenta :: "('u TrajectoryAnalyzer \<times> heap, unit) prog" where
  "calculate_momenta =
     and_then masses (\<lambda>am.
     and_then speeds (\<lambda>sp.
     and_then (array_of am) (\<lambda>m.
     and_then (array_of sp) (\<lambda>s.
     and_then (lift_result (np_binop (*) m s)) (\<lambda>r.
     and_then (new_array r) (\<lambda>a'.
     write_attr (\<lambda>t. t\<lparr>t_momenta := Some a'\<rparr>)))))))"

definition momenta :: "('u TrajectoryAnalyzer \<times> heap, addr option) prog" where
  "momenta = lazy_property t_momenta calculate_momenta"

definition calculate_energy_kinetic_per_atom :: "('u TrajectoryAnalyzer \<times> heap, unit) prog" where
  "calculate_energy_kinetic_per_atom =
     and_then momenta (\<lambda>mo.
     and_then (array_of mo) (\<lambda>m.
     and_then speeds (\<lambda>sp.
     and_then (array_of sp) (\<lambda>s.
     and_then (lift_result (np_binop (*) (np_scale 0.5 m) s)) (\<lambda>r.
     and_then (new_array r) (\<lambda>a'.
     write_attr (\<lambda>t. t\<lparr>t_energy_kinetic_per_atom := Some a'\<rparr>)))))))"

definition energy_kinetic_per_atom :: "('u TrajectoryAnalyzer \<times> heap, addr option) prog" where
  "energy_kinetic_per_atom = lazy_property t_energy_kinetic_per_atom calculate_energy_kinetic_per_atom"

definition calculate_energy_kinetic_total :: "('u TrajectoryAnalyzer \<times> heap, unit) prog" where
  "calculate_energy_kinetic_total =
     and_then energy_kinetic_per_atom (\<lambda>ke.
     and_then (array_of ke) (\<lambda>k.
     and_then (lift_result (np_reduce sum_list 1 k)) (\<lambda>r.
     and_then (new_array r) (\<lambda>a'.
     write_attr (\<lambda>t. t\<lparr>t_energy_kinetic_total := Some a'\<rparr>)))))"

definition energy_kinetic_total :: "('u TrajectoryAnalyzer \<times> heap, addr option) prog" where
  "energy_kinetic_total = lazy_property t_energy_kinetic_total calculate_energy_kinetic_total"

definition calculate_energy_potential_total :: "('u TrajectoryAnalyzer \<times> heap, unit) prog" where
  "calculate_energy_potential_total =
     and_then energy_potential_coulomb (\<lambda>ac.
     and_then energy_potential_lennard_jones (\<lambda>al.
     and_then (array_of ac) (\<lambda>c.
     and_then (array_of al) (\<lambda>l.
     and_then (lift_result (np_binop (+) c l)) (\<lambda>cl.
     and_then energy_potential_bond_vibration (\<lambda>ab.
     and_then (array_of ab) (\<lambda>b.
     and_then (lift_result (np_binop (+) cl b)) (\<lambda>clb.
     and_then energy_potential_angle_vibration (\<lambda>aa.
     and_then (array_of aa) (\<lambda>av.
     and_then (lift_result (np_binop (+) clb av)) (\<lambda>r.
     and_then (new_array r) (\<lambda>a'.
     write_attr (\<lambda>t. t\<lparr>t_energy_potential_total := Some a'\<rparr>)))))))))))))"

definition energy_potential_total :: "('u TrajectoryAnalyzer \<times> heap, addr option) prog" where
  "energy_potential_total = lazy_property t_energy_potential_total calculate_energy_potential_total"

definition calculate_energy_total :: "('u TrajectoryAnalyzer \<times> heap, unit) prog" where
  "calculate_energy_total =
     and_then energy_potential_total (\<lambda>ep.
     and_then energy_kinetic_total (\<lambda>ek.
     and_then (array_of ep) (\<lambda>p.
     and_then (array_of ek) (\<lambda>k.
     and_then (lift_result (np_binop (+) p k)) (\<lambda>r.
     and_then (new_array r) (\<lambda>a'.
     write_attr (\<lambda>t. t\<lparr>t_energy_total := Some a'\<rparr>)))))))"

definition energy_total :: "('u TrajectoryAnalyzer \<times> heap, addr option) prog" where
  "energy_total = lazy_property t_energy_total calculate_energy_total"

text \<open>
  \<^verbatim>\<open>_calculate_temperature\<close>: the unit of the Boltzmann constant is
  \<^verbatim>\<open>self.unit_energy / self.unit_temperature\<close>, the constant is converted to it by the
  unit library, and its value divides the mean over axis 1 of the kinetic energy per atom.
\<close>

definition boltzmann_value :: "'u UnitSystem \<Rightarrow> 'u pyunit \<Rightarrow> error + real" where
  "boltzmann_value us u = (case u of PyUnit x \<Rightarrow> boltzmann_const_convert_unit us x | _ \<Rightarrow> Inl TypeError)"

definition calculate_temperature :: "'u UnitSystem \<Rightarrow> ('u TrajectoryAnalyzer \<times> heap, unit) prog" where
  "calculate_temperature us =
     and_then (on_object (unit_energy us)) (\<lambda>ue.
     and_then (on_object unit_temperature) (\<lambda>ut.
     and_then (lift_result (py_over us ue ut)) (\<lambda>unit_boltzmann_const.
     and_then (lift_result (boltzmann_value us unit_boltzmann_const)) (\<lambda>boltzmann_const.
     and_then energy_kinetic_per_atom (\<lambda>ke.
     and_then (array_of ke) (\<lambda>k.
     and_then (lift_result (np_reduce line_mean 1 k)) (\<lambda>m.
     and_then (new_array (np_divide_scalar m ((3 / 2) * boltzmann_const))) (\<lambda>a'.
     write_attr (\<lambda>t. t\<lparr>t_temperature := Some a'\<rparr>)))))))))"

definition temperature :: "'u UnitSystem \<Rightarrow> ('u TrajectoryAnalyzer \<times> heap, addr option) prog" where
  "temperature us = lazy_property t_temperature (calculate_temperature us)"

section \<open>MDSimulation\<close>

text \<open>
  The attributes of an \<^verbatim>\<open>MDSimulation\<close>; \<open>s_x\<close> is \<^verbatim>\<open>self._x\<close>. The force field is
  held with its state, which its methods change.
\<close>

record ('ff, 'u) MDSimulation =
  s_forcefield :: "'ff pyobj"
  s_ensemble :: "'u ensemble pyobj"
  s_trajectory :: "'u TrajectoryAnalyzer option"
  s_positions :: "addr option"
  s_velocities :: "addr option"
  s_timestamps :: "addr option"
  s_energy_potential_coulomb :: "addr option"
  s_energy_potential_lennard_jones :: "addr option"
  s_energy_potential_bond_vibration :: "addr option"
  s_energy_potential_angle_vibration :: "addr option"
  s_bond_angles :: "addr option"
  s_distances_interatomic :: "addr option"
  s_curr_step :: "int option"

definition forcefield_message :: string where
  "forcefield_message = ''Argument `forcefield` should either be an instance or a subclass of `mdforce.models.forcefield_superclass.ForceField`.''"

definition ensemble_message :: string where
  "ensemble_message = ''Argument `ensemble` should either be an instance or a subclass of `mdsim.ensemble_generator.superclass.EnsembleGenerator`.''"

definition not_yet_run_message :: string where
  "not_yet_run_message = ''The simulation has not yet been run.''"

text \<open>\<^verbatim>\<open>MDSimulation.__init__\<close>\<close>

definition MDSimulation_init :: "'ff pyobj \<Rightarrow> 'u ensemble pyobj \<Rightarrow> error + ('ff, 'u) MDSimulation" where
  "MDSimulation_init forcefield ensemble =
     (if \<not> isinstance forcefield ForceField \<or> \<not> issubclass_of_class forcefield ForceField
      then Inl (ValueError forcefield_message)
      else if \<not> isinstance ensemble EnsembleGenerator \<or> \<not> issubclass_of_class ensemble EnsembleGenerator
      then Inl (ValueError ensemble_message)
      else Inr \<lparr>s_forcefield = forcefield, s_ensemble = ensemble, s_trajectory = None,
                s_positions = None, s_velocities = None, s_timestamps = None,
                s_energy_potential_coulomb = None, s_energy_potential_lennard_jones = None,
                s_energy_potential_bond_vibration = None,
                s_energy_potential_angle_vibration = None,
                s_bond_angles = None, s_distances_interatomic = None, s_curr_step = None\<rparr>)"

text \<open>The properties \<^verbatim>\<open>trajectory\<close>, \<^verbatim>\<open>ensemble\<close> and \<^verbatim>\<open>forcefield\<close>\<close>

definition trajectory :: "('ff, 'u) MDSimulation \<Rightarrow> error + 'u TrajectoryAnalyzer" where
  "trajectory d =
     (case s_trajectory d of
        None \<Rightarrow> Inl (ValueError not_yet_run_message)
      | Some t \<Rightarrow> Inr t)"

definition ensemble :: "('ff, 'u) MDSimulation \<Rightarrow> 'u ensemble pyobj" where
  "ensemble d = s_ensemble d"

definition forcefield :: "('ff, 'u) MDSimulation \<Rightarrow> 'ff pyobj" where
  "forcefield d = s_forcefield d"

subsection \<open>The force callback\<close>

text \<open>A method call on the force field held by the driver.\<close>

definition call_forcefield :: "('ff, 'a) prog \<Rightarrow> (('ff, 'u) MDSimulation \<times> heap, 'a) prog" where
  "call_forcefield m = (\<lambda>(d, h).
     case m (obj_state (s_forcefield d)) of
       (r, ff') \<Rightarrow> (r, (d\<lparr>s_forcefield := (s_forcefield d)\<lparr>obj_state := ff'\<rparr>\<rparr>, h)))"

text \<open>
  \<^verbatim>\<open>self._buffer[self._curr_step] = self._forcefield.attribute\<close>: the attribute is read,
  then the buffer is subscripted; a buffer that is still \<^verbatim>\<open>None\<close> raises TypeError. A
  buffer that is not \<^verbatim>\<open>None\<close> is an array of the store.
\<close>

definition store_step ::
  "(('ff, 'u) MDSimulation \<Rightarrow> addr option) \<Rightarrow> ('ff \<Rightarrow> ndarray) \<Rightarrow> (('ff, 'u) MDSimulation \<times> heap, unit) prog" where
  "store_step buffer attribute = (\<lambda>(d, h).
     case buffer d of
       None \<Rightarrow> (Inl TypeError, (d, h))
     | Some a \<Rightarrow>
         (case np_setitem (h ! a) (s_curr_step d) (attribute (obj_state (s_forcefield d))) of
            Inl e \<Rightarrow> (Inl e, (d, h))
          | Inr arr \<Rightarrow> (Inr (), (d, h[a := arr]))))"

text \<open>\<^verbatim>\<open>self._curr_step += 1\<close>\<close>

definition increment_step :: "(('ff, 'u) MDSimulation \<times> heap, unit) prog" where
  "increment_step = (\<lambda>(d, h).
     case s_curr_step d of
       None \<Rightarrow> (Inl TypeError, (d, h))
     | Some k \<Rightarrow> (Inr (), (d\<lparr>s_curr_step := Some (k + 1)\<rparr>, h)))"

text \<open>\<^verbatim>\<open>MDSimulation._force\<close>\<close>

definition force ::
  "('ff, 'u) forcefield_class \<Rightarrow> ndarray \<Rightarrow> (('ff, 'u) MDSimulation \<times> heap, ndarray) prog" where
  "force ff q =
     and_then (call_forcefield (ff_call ff q)) (\<lambda>_.
     and_then (store_step s_energy_potential_coulomb (ff_energy_coulomb ff)) (\<lambda>_.
     and_then (store_step s_energy_potential_lennard_jones (ff_energy_lennard_jones ff)) (\<lambda>_.
     and_then (store_step s_energy_potential_bond_vibration (ff_energy_bond_vibration ff)) (\<lambda>_.
     and_then (store_step s_energy_potential_angle_vibration (ff_energy_angle_vibration ff)) (\<lambda>_.
     and_then (store_step s_bond_angles (ff_bond_angles ff)) (\<lambda>_.
     and_then (store_step s_distances_interatomic (ff_distances ff)) (\<lambda>_.
     and_then increment_step (\<lambda>_.
     read_attr (\<lambda>d. ff_acceleration ff (obj_state (s_forcefield d)))))))))))"

subsection \<open>Running the simulation\<close>

text \<open>The integrator at work: each of its calls runs the callback on the driver.\<close>

primrec drive ::
  "integ \<Rightarrow> ('ff, 'u) forcefield_class \<Rightarrow> (('ff, 'u) MDSimulation \<times> heap, ndarray \<times> ndarray \<times> ndarray) prog" where
  "drive (Return p v t) ff = succeed (p, v, t)"
| "drive (Raises e) ff = raise e"
| "drive (Calls q k) ff = and_then (force ff q) (\<lambda>a. drive (k a) ff)"

text \<open>\<^verbatim>\<open>self._buffer = np.zeros(shape)\<close>\<close>

definition new_zeros ::
  "int list \<Rightarrow> (addr option \<Rightarrow> ('ff, 'u) MDSimulation \<Rightarrow> ('ff, 'u) MDSimulation) \<Rightarrow>
   (('ff, 'u) MDSimulation \<times> heap, unit) prog" where
  "new_zeros dims assign =
     and_then (lift_result (np_zeros dims)) (\<lambda>z.
     and_then (new_array z) (\<lambda>a.
     write_attr (assign (Some a))))"

text \<open>
  \<^verbatim>\<open>MDSimulation.run\<close>, in three parts: the preparation (lines 120 to 140: buffers,
  force field, step counter), the integration (lines 141 to 149; the arrays the integrator
  returns are new objects), and the construction of the trajectory (lines 150 to 169).
\<close>

definition run_prepare ::
  "('ff, 'u) forcefield_class \<Rightarrow> int \<Rightarrow> bool \<Rightarrow> (('ff, 'u) MDSimulation \<times> heap, unit) prog" where
  "run_prepare ff num_steps pbc =
     and_then (new_zeros [num_steps + 1] (\<lambda>a d. d\<lparr>s_energy_potential_coulomb := a\<rparr>)) (\<lambda>_.
     and_then (new_zeros [num_steps + 1] (\<lambda>a d. d\<lparr>s_energy_potential_lennard_jones := a\<rparr>)) (\<lambda>_.
     and_then (new_zeros [num_steps + 1] (\<lambda>a d. d\<lparr>s_energy_potential_bond_vibration := a\<rparr>)) (\<lambda>_.
     and_then (new_zeros [num_steps + 1] (\<lambda>a d. d\<lparr>s_energy_potential_angle_vibration := a\<rparr>)) (\<lambda>_.
     and_then (read_attr (\<lambda>d. obj_state (ensemble d))) (\<lambda>ens.
     and_then (new_zeros [num_steps + 1, ens_number_molecules_total ens]
                 (\<lambda>a d. d\<lparr>s_bond_angles := a\<rparr>)) (\<lambda>_.
     and_then (new_zeros [num_steps + 1, ens_number_atoms_total ens, ens_number_atoms_total ens]
                 (\<lambda>a d. d\<lparr>s_distances_interatomic := a\<rparr>)) (\<lambda>_.
     and_then (call_forcefield (ff_initialize_forcefield ff (nd_shape (ens_positions ens))
                 (if pbc then Some (ens_box_lengths ens) else None))) (\<lambda>_.
     and_then (call_forcefield (ff_fit_units_to_input_data ff (ens_unit_positions ens)
                 (ens_unit_time ens))) (\<lambda>_.
     write_attr (\<lambda>d. d\<lparr>s_curr_step := Some 0\<rparr>))))))))))"

definition run_integrate ::
  "('ff, 'u) forcefield_class \<Rightarrow> integrator \<Rightarrow> int \<Rightarrow> real \<Rightarrow> (('ff, 'u) MDSimulation \<times> heap, unit) prog" where
  "run_integrate ff integrate num_steps dt =
     and_then (read_attr (\<lambda>d. obj_state (ensemble d))) (\<lambda>ens.
     and_then (drive (integrate (ens_positions ens) (ens_velocities ens) dt num_steps) ff) (\<lambda>(p, v, t).
     and_then (new_array p) (\<lambda>a_p.
     and_then (new_array v) (\<lambda>a_v.
     and_then (new_array t) (\<lambda>a_t.
     write_attr (\<lambda>d. d\<lparr>s_positions := Some a_p, s_velocities := Some a_v,
                         s_timestamps := Some a_t\<rparr>))))))"

definition run_package ::
  "('ff, 'u) forcefield_class \<Rightarrow> 'u UnitSystem \<Rightarrow> (('ff, 'u) MDSimulation \<times> heap, unit) prog" where
  "run_package ff us = (\<lambda>(d, h).
     case TrajectoryAnalyzer_init us
            (s_positions d) (s_velocities d) (s_timestamps d)
            (ens_atomic_numbers (obj_state (ensemble d)))
            (ens_molecule_ids (obj_state (ensemble d)))
            (ens_connectivity_matrix (obj_state (ensemble d)))
            (s_energy_potential_coulomb d)
            (s_energy_potential_lennard_jones d)
            (s_energy_potential_bond_vibration d)
            (s_energy_potential_angle_vibration d)
            (s_distances_interatomic d)
            (s_bond_angles d)
            (ens_unit_positions (obj_state (ensemble d)))
            (ens_unit_time (obj_state (ensemble d)))
            (ens_unit_velocities (obj_state (ensemble d)))
            (ff_unit_energy ff (obj_state (forcefield d)))
            (ff_unit_angle ff (obj_state (forcefield d)))
            h of
       (Inl e, h') \<Rightarrow> (Inl e, (d, h'))
     | (Inr t, h') \<Rightarrow> (Inr (), (d\<lparr>s_trajectory := Some t\<rparr>, h')))"

definition run ::
  "('ff, 'u) forcefield_class \<Rightarrow> 'u UnitSystem \<Rightarrow> integrator \<Rightarrow> int \<Rightarrow> real \<Rightarrow> bool \<Rightarrow>
   (('ff, 'u) MDSimulation \<times> heap, unit) prog" where
  "run ff us integrate num_steps dt pbc =
     and_then (run_prepare ff num_steps pbc) (\<lambda>_.
     and_then (run_integrate ff integrate num_steps dt) (\<lambda>_.
     run_package ff us))"

section \<open>Notions used to state the properties\<close>


text \<open>\<^verbatim>\<open>len(a)\<close>, the number of slots of the first axis.\<close>

definition np_len :: "ndarray \<Rightarrow> nat" where
  "np_len a = (case nd_shape a of [] \<Rightarrow> 0 | n # rest \<Rightarrow> n)"

text \<open>
  The six diagnostic buffers of the driver, each with the attribute of the force field
  that \<^verbatim>\<open>_force\<close> stores in it, in the order of the six assignments.
\<close>

definition diagnostics ::
  "('ff, 'u) forcefield_class \<Rightarrow> ((('ff, 'u) MDSimulation \<Rightarrow> addr option) \<times> ('ff \<Rightarrow> ndarray)) list" where
  "diagnostics ff =
     [(s_energy_potential_coulomb, ff_energy_coulomb ff),
      (s_energy_potential_lennard_jones, ff_energy_lennard_jones ff),
      (s_energy_potential_bond_vibration, ff_energy_bond_vibration ff),
      (s_energy_potential_angle_vibration, ff_energy_angle_vibration ff),
      (s_bond_angles, ff_bond_angles ff),
      (s_distances_interatomic, ff_distances ff)]"

primrec store_all ::
  "((('ff, 'u) MDSimulation \<Rightarrow> addr option) \<times> ('ff \<Rightarrow> ndarray)) list \<Rightarrow>
   (('ff, 'u) MDSimulation \<times> heap, unit) prog" where
  "store_all [] = succeed ()"
| "store_all (x # xs) = and_then (store_step (fst x) (snd x)) (\<lambda>_. store_all xs)"

text \<open>
  The force-field states that the successive invocations of the callback read back, in the
  order in which the integrator makes its calls: the \<open>i\<close>-th element is the state left by
  the \<open>i\<close>-th call of the force field.
\<close>

primrec ff_states :: "integ \<Rightarrow> ('ff, 'u) forcefield_class \<Rightarrow> 'ff \<Rightarrow> 'ff list" where
  "ff_states (Return p v t) ff st = []"
| "ff_states (Raises e) ff st = []"
| "ff_states (Calls q k) ff st =
     (case ff_call ff q st of
        (Inl e, st') \<Rightarrow> []
      | (Inr u, st') \<Rightarrow> st' # ff_states (k (ff_acceleration ff st')) ff st')"

text \<open>
  A buffer \<open>arr\<close> that started as \<open>a0\<close> holds the record of the invocations \<open>sts\<close>: slot \<open>i\<close>
  holds the attribute read after the \<open>i\<close>-th invocation (broadcast into the slot), for
  every invocation, and every later slot is as it was in \<open>a0\<close>.
\<close>

definition slot_filled :: "('ff \<Rightarrow> ndarray) \<Rightarrow> 'ff list \<Rightarrow> ndarray \<Rightarrow> ndarray \<Rightarrow> bool" where
  "slot_filled attribute sts a0 arr =
     (nd_wf arr \<and> nd_shape arr = nd_shape a0 \<and> length sts \<le> np_len arr
      \<and> (\<forall>i \<in> {0..<length sts}.
            broadcast_to (tl (nd_shape arr)) (attribute (sts ! i)) = Some (np_slot arr i))
      \<and> (\<forall>j \<in> {length sts..<np_len arr}. np_slot arr j = np_slot a0 j))"

text \<open>
  The driver is aligned with the invocations \<open>sts\<close> made since the store was \<open>h0\<close>: the step
  counter is their number, the six buffers are six different arrays, and each holds the
  record of the invocations.
\<close>

definition recorded ::
  "('ff, 'u) forcefield_class \<Rightarrow> heap \<Rightarrow> 'ff list \<Rightarrow> ('ff, 'u) MDSimulation \<times> heap \<Rightarrow> bool" where
  "recorded ff h0 sts s =
     (case s of (d, h) \<Rightarrow>
        s_curr_step d = Some (int (length sts)) \<and> length h = length h0
        \<and> distinct (map (\<lambda>x. fst x d) (diagnostics ff))
        \<and> (\<forall>x \<in> set (diagnostics ff).
              case fst x d of
                None \<Rightarrow> False
              | Some a \<Rightarrow> a < length h \<and> slot_filled (snd x) sts (h0 ! a) (h ! a)))"

text \<open>
  The integrator after \<open>m\<close> invocations of the callback that returned normally: what it
  does next, and the state of the driver and the store then.
\<close>

primrec advance ::
  "nat \<Rightarrow> ('ff, 'u) forcefield_class \<Rightarrow> integ \<Rightarrow> ('ff, 'u) MDSimulation \<times> heap \<Rightarrow>
   (integ \<times> ('ff, 'u) MDSimulation \<times> heap) option" where
  "advance 0 ff t s = Some (t, s)"
| "advance (Suc m) ff t s =
     (case t of
        Calls q k \<Rightarrow> (case force ff q s of (Inr a, s1) \<Rightarrow> advance m ff (k a) s1 | (Inl e, s1) \<Rightarrow> None)
      | _ \<Rightarrow> None)"

text \<open>
  A statement keeps a relation between the state before and the state after, however it
  ends. \<open>grows\<close>: the store is extended, no array in it changes, and the trajectory of the
  driver stays.
\<close>

definition keeps :: "('s \<Rightarrow> 's \<Rightarrow> bool) \<Rightarrow> ('s, 'a) prog \<Rightarrow> bool" where
  "keeps R m = (\<forall>s r s'. m s = (r, s') \<longrightarrow> R s s')"

definition grows :: "('ff, 'u) MDSimulation \<times> heap \<Rightarrow> ('ff, 'u) MDSimulation \<times> heap \<Rightarrow> bool" where
  "grows s s' = ((\<exists>ext. snd s' = snd s @ ext) \<and> s_trajectory (fst s') = s_trajectory (fst s))"

text \<open>\<open>t'\<close> is \<open>t\<close> except for its unit attributes (the one for the temperature apart).\<close>

definition units_only :: "'u TrajectoryAnalyzer \<Rightarrow> 'u TrajectoryAnalyzer \<Rightarrow> bool" where
  "units_only t t' =
     (\<exists>m l tm v p e. t' = t\<lparr>t_unit_mass := m, t_unit_length := l, t_unit_time := tm,
                              t_unit_velocity := v, t_unit_momentum := p, t_unit_energy := e\<rparr>)"

text \<open>The shape and the length of the array behind a reference.\<close>

definition shape_at :: "heap \<Rightarrow> addr option \<Rightarrow> nat list option" where
  "shape_at h r = map_option (\<lambda>a. nd_shape (h ! a)) r"

definition len_at :: "heap \<Rightarrow> addr option \<Rightarrow> nat option" where
  "len_at h r = map_option (\<lambda>a. np_len (h ! a)) r"

text \<open>
  What an integrator can return, whatever accelerations it is given; and its contract on
  the number of frames: each of the three series it returns has \<open>n_steps + 1\<close> entries.
\<close>

primrec results :: "integ \<Rightarrow> (ndarray \<times> ndarray \<times> ndarray) set" where
  "results (Return p v t) = {(p, v, t)}"
| "results (Raises e) = {}"
| "results (Calls q k) = (\<Union>a. results (k a))"

definition integrator_contract :: "integrator \<Rightarrow> bool" where
  "integrator_contract integrate =
     (\<forall>x0 v0 dt n_steps p v t. (p, v, t) \<in> results (integrate x0 v0 dt n_steps) \<longrightarrow>
        np_len p = nat (n_steps + 1) \<and> np_len v = nat (n_steps + 1) \<and> np_len t = nat (n_steps + 1))"

text \<open>
  A driver on which no run has completed yet: it comes from the constructor, and every run
  made on it since has failed.
\<close>

inductive not_yet_run ::
  "('ff, 'u) forcefield_class \<Rightarrow> 'u UnitSystem \<Rightarrow> ('ff, 'u) MDSimulation \<times> heap \<Rightarrow> bool"
  for ff :: "('ff, 'u) forcefield_class" and us :: "'u UnitSystem" where
  constructed: "MDSimulation_init f e = Inr d \<Longrightarrow> not_yet_run ff us (d, h)"
| failed_run: "not_yet_run ff us s \<Longrightarrow> run ff us integrate num_steps dt pbc s = (Inl err, s')
               \<Longrightarrow> not_yet_run ff us s'"


text \<open>The seven derived quantities, the cache and the property of each.\<close>

datatype quantity =
  Speed | Momentum | KineticEnergyPerAtom | KineticEnergyTotal | PotentialEnergyTotal
| TotalEnergy | Temperature

primrec cache_of :: "quantity \<Rightarrow> 'u TrajectoryAnalyzer \<Rightarrow> addr option" where
  "cache_of Speed = t_speeds"
| "cache_of Momentum = t_momenta"
| "cache_of KineticEnergyPerAtom = t_energy_kinetic_per_atom"
| "cache_of KineticEnergyTotal = t_energy_kinetic_total"
| "cache_of PotentialEnergyTotal = t_energy_potential_total"
| "cache_of TotalEnergy = t_energy_total"
| "cache_of Temperature = t_temperature"

primrec derived :: "'u UnitSystem \<Rightarrow> quantity \<Rightarrow> ('u TrajectoryAnalyzer \<times> heap, addr option) prog" where
  "derived us Speed = speeds"
| "derived us Momentum = momenta"
| "derived us KineticEnergyPerAtom = energy_kinetic_per_atom"
| "derived us KineticEnergyTotal = energy_kinetic_total"
| "derived us PotentialEnergyTotal = energy_potential_total"
| "derived us TotalEnergy = energy_total"
| "derived us Temperature = temperature us"

text \<open>
  The store is extended, no array in it changes, and every cache outside \<open>X\<close> that held an
  array holds the same one.
\<close>

definition kept_outside ::
  "quantity set \<Rightarrow> 'u TrajectoryAnalyzer \<times> heap \<Rightarrow> 'u TrajectoryAnalyzer \<times> heap \<Rightarrow> bool" where
  "kept_outside X s s' =
     ((\<exists>ext. snd s' = snd s @ ext)
      \<and> (\<forall>q a. q \<notin> X \<longrightarrow> cache_of q (fst s) = Some a \<longrightarrow> cache_of q (fst s') = Some a))"

text \<open>
  What can happen to a trajectory between two reads: reads of derived quantities, whatever
  their outcome, and reads of unit properties, which change unit attributes only.
\<close>

inductive reads ::
  "'u UnitSystem \<Rightarrow> 'u TrajectoryAnalyzer \<times> heap \<Rightarrow> 'u TrajectoryAnalyzer \<times> heap \<Rightarrow> bool"
  for us :: "'u UnitSystem" where
  no_read: "reads us s s"
| read_quantity: "reads us s s1 \<Longrightarrow> derived us q s1 = (r, s2) \<Longrightarrow> reads us s s2"
| read_unit: "reads us s (t1, h1) \<Longrightarrow> units_only t1 t2 \<Longrightarrow> reads us s (t2, h1)"

section \<open>A test bench\<close>

text \<open>
  Stub collaborators for concrete runs: units are symbolic expressions, the force field
  counts its calls and reports the count as every energy, the integrator calls the force
  callback a given number of times on the initial positions.
\<close>

datatype unit_expr =
  Base string
| Times unit_expr unit_expr
| Over unit_expr unit_expr
| Power unit_expr int

definition stub_units :: "unit_expr UnitSystem" where
  "stub_units =
     \<lparr>duq_Unit = (\<lambda>l. Inr (Base l)),
      unit_times = Times, unit_over = Over, unit_power = Power,
      boltzmann_const_convert_unit = (\<lambda>u. Inr 2),
      convert_to_unit = (\<lambda>u dim name. case u of PyStr l \<Rightarrow> Inr (PyUnit (Base l)) | x \<Rightarrow> Inr x),
      mass_Da = (\<lambda>z. if z = 1 then Some 1 else if z = 8 then Some 16 else None)\<rparr>"

definition scalar :: "real \<Rightarrow> ndarray" where
  "scalar x = \<lparr>nd_shape = [], nd_data = [x]\<rparr>"

definition stub_forcefield :: "nat \<Rightarrow> (nat, unit_expr) forcefield_class" where
  "stub_forcefield num_atoms =
     \<lparr>ff_initialize_forcefield = (\<lambda>shape box. succeed ()),
      ff_fit_units_to_input_data = (\<lambda>ul ut. succeed ()),
      ff_call = (\<lambda>q n. (Inr (), Suc n)),
      ff_energy_coulomb = (\<lambda>n. scalar (real n)),
      ff_energy_lennard_jones = (\<lambda>n. scalar (real n)),
      ff_energy_bond_vibration = (\<lambda>n. scalar (real n)),
      ff_energy_angle_vibration = (\<lambda>n. scalar (real n)),
      ff_bond_angles = (\<lambda>n. \<lparr>nd_shape = [1], nd_data = [real n]\<rparr>),
      ff_distances = (\<lambda>n. \<lparr>nd_shape = [num_atoms, num_atoms],
                             nd_data = replicate (num_atoms * num_atoms) (real n)\<rparr>),
      ff_acceleration = (\<lambda>n. \<lparr>nd_shape = [num_atoms, 3], nd_data = replicate (num_atoms * 3) 0\<rparr>),
      ff_unit_energy = (\<lambda>n. PyStr ''J''),
      ff_unit_angle = (\<lambda>n. PyStr ''rad'')\<rparr>"

definition stub_ensemble :: "unit_expr ensemble" where
  "stub_ensemble =
     \<lparr>ens_number_molecules_total = 1, ens_number_atoms_total = 2,
      ens_positions = \<lparr>nd_shape = [2, 3], nd_data = [0, 0, 0, 1, 0, 0]\<rparr>,
      ens_velocities = \<lparr>nd_shape = [2, 3], nd_data = [0, 0, 0, 0, 0, 0]\<rparr>,
      ens_box_lengths = \<lparr>nd_shape = [3], nd_data = [10, 10, 10]\<rparr>,
      ens_unit_positions = PyStr ''A'', ens_unit_time = PyStr ''fs'',
      ens_unit_velocities = PyStr ''A/fs'',
      ens_atomic_numbers = [1, 1], ens_molecule_ids = [0, 0],
      ens_connectivity_matrix = [[False, True], [False, False]]\<rparr>"

definition forcefield_object :: "nat pyobj" where
  "forcefield_object = \<lparr>obj_type_mro = [''Stub'', ForceField, ''object''],
                         obj_class_mro = [''Stub'', ForceField, ''object''], obj_state = 0\<rparr>"

definition ensemble_object :: "unit_expr ensemble pyobj" where
  "ensemble_object = \<lparr>obj_type_mro = [''StubEnsemble'', EnsembleGenerator, ''object''],
                       obj_class_mro = [''StubEnsemble'', EnsembleGenerator, ''object''],
                       obj_state = stub_ensemble\<rparr>"


primrec calls_then :: "nat \<Rightarrow> ndarray \<Rightarrow> integ \<Rightarrow> integ" where
  "calls_then 0 q r = r"
| "calls_then (Suc n) q r = Calls q (\<lambda>a. calls_then n q r)"

definition frames :: "nat \<Rightarrow> ndarray \<Rightarrow> ndarray" where
  "frames n x = \<lparr>nd_shape = n # nd_shape x, nd_data = concat (replicate n (nd_data x))\<rparr>"

text \<open>An integrator that keeps its contract (\<open>n_steps + 1\<close> calls), and one that calls once more.\<close>

definition stub_integrate :: integrator where
  "stub_integrate x0 v0 dt n_steps =
     calls_then (nat (n_steps + 1)) x0
       (Return (frames (nat (n_steps + 1)) x0) (frames (nat (n_steps + 1)) v0)
          \<lparr>nd_shape = [nat (n_steps + 1)], nd_data = map (\<lambda>i. real i * dt) [0..<nat (n_steps + 1)]\<rparr>)"

definition overrun_integrate :: integrator where
  "overrun_integrate x0 v0 dt n_steps =
     calls_then (nat (n_steps + 2)) x0
       (Return (frames (nat (n_steps + 1)) x0) (frames (nat (n_steps + 1)) v0)
          \<lparr>nd_shape = [nat (n_steps + 1)], nd_data = map (\<lambda>i. real i * dt) [0..<nat (n_steps + 1)]\<rparr>)"

definition bench_driver :: "(nat, unit_expr) MDSimulation" where
  "bench_driver =
     \<lparr>s_forcefield = forcefield_object, s_ensemble = ensemble_object, s_trajectory = None,
      s_positions = None, s_velocities = None, s_timestamps = None,
      s_energy_potential_coulomb = None, s_energy_potential_lennard_jones = None,
      s_energy_potential_bond_vibration = None,
      s_energy_potential_angle_vibration = None,
      s_bond_angles = None, s_distances_interatomic = None, s_curr_step = None\<rparr>"

text \<open>The bench driver prepared for one step, on an empty store.\<close>

definition bench_prepared :: "(nat, unit_expr) MDSimulation \<times> heap" where
  "bench_prepared = snd (run_prepare (stub_forcefield 2) 1 False (bench_driver, []))"

text \<open>
  A trajectory of one frame and two atoms, as the constructor builds it from nine arrays
  and the declared units; the second atom is at rest.
\<close>

definition bench_arrays :: heap where
  "bench_arrays =
     [\<lparr>nd_shape = [1, 2, 3], nd_data = [0, 0, 0, 1, 0, 0]\<rparr>,
      \<lparr>nd_shape = [1, 2, 3], nd_data = [1, 0, 0, 0, 0, 0]\<rparr>,
      \<lparr>nd_shape = [1], nd_data = [0]\<rparr>,
      \<lparr>nd_shape = [1], nd_data = [1]\<rparr>,
      \<lparr>nd_shape = [1], nd_data = [2]\<rparr>,
      \<lparr>nd_shape = [1], nd_data = [3]\<rparr>,
      \<lparr>nd_shape = [1], nd_data = [4]\<rparr>,
      \<lparr>nd_shape = [1, 2, 2], nd_data = [0, 1, 1, 0]\<rparr>,
      \<lparr>nd_shape = [1, 1], nd_data = [0]\<rparr>]"

definition bench_store :: heap where
  "bench_store = bench_arrays @ [\<lparr>nd_shape = [2], nd_data = [1, 16]\<rparr>]"

definition bench_trajectory :: "unit_expr TrajectoryAnalyzer" where
  "bench_trajectory =
     \<lparr>t_positions = Some 0, t_velocities = Some 1, t_timestamps = Some 2,
      t_atomic_numbers = [1, 8], t_molecule_ids = [0, 0],
      t_connectivity_matrix = [[False, True], [False, False]],
      t_energy_potential_coulomb = Some 3, t_energy_potential_lennard_jones = Some 4,
      t_energy_potential_bond_vibration = Some 5, t_energy_potential_angle_vibration = Some 6,
      t_distances_interatomic = Some 7, t_bond_angles = Some 8, t_masses = 9,
      t_unit_mass = PyUnit (Base ''Da''), t_unit_length = PyUnit (Base ''A''),
      t_unit_time = PyUnit (Base ''fs''), t_unit_velocity = PyUnit (Base ''m/s''),
      t_unit_energy = PyUnit (Base ''J''), t_unit_angle = PyUnit (Base ''rad''),
      t_unit_momentum = PyUnit (Times (Base ''Da'') (Base ''m/s'')),
      t_unit_temperature = PyUnit (Base ''K''),
      t_speeds = None, t_momenta = None, t_energy_kinetic_per_atom = None,
      t_temperature = None, t_energy_kinetic_total = None, t_energy_potential_total = None,
      t_energy_total = None, t_bond_lengths = None\<rparr>"

section \<open>Construction of the driver\<close>

lemma isinstance_of_class:
  "issubclass_of_class obj c \<Longrightarrow> isinstance obj c"
  by (simp add: isinstance_def issubclass_of_class_def)



section \<open>Basic facts\<close>

subsection \<open>Sequencing\<close>

lemma and_then_assoc: "and_then (and_then m f) g = and_then m (\<lambda>x. and_then (f x) g)"
  by (auto simp: and_then_def fun_eq_iff split: prod.splits sum.splits)

lemma and_then_succeed: "and_then (succeed x) f = f x"
  by (simp add: and_then_def succeed_def)

lemma and_then_result:
  "and_then m f s = (r, s') \<longleftrightarrow>
     (\<exists>e. m s = (Inl e, s') \<and> r = Inl e) \<or> (\<exists>x s1. m s = (Inr x, s1) \<and> f x s1 = (r, s'))"
  by (auto simp: and_then_def split: prod.splits sum.splits)

lemma and_then_Inr:
  "and_then m f s = (Inr y, s') \<longleftrightarrow> (\<exists>x s1. m s = (Inr x, s1) \<and> f x s1 = (Inr y, s'))"
  by (auto simp: and_then_def split: prod.splits sum.splits)

lemmas prog_defs = and_then_def succeed_def raise_def lift_result_def read_attr_def write_attr_def
  new_array_def on_object_def array_of_def

lemmas bench_defs = bench_driver_def forcefield_object_def ensemble_object_def stub_ensemble_def
  stub_forcefield_def stub_units_def scalar_def ForceField_def EnsembleGenerator_def

subsection \<open>Slots of an array\<close>

lemma slot_update_same:
  assumes "length r = sz" "k * sz \<le> length xs"
  shows "take sz (drop (k * sz) (take (k * sz) xs @ r @ drop (Suc k * sz) xs)) = r"
  using assms by simp

lemma take_drop_before:
  assumes "a + sz \<le> b" "b \<le> length xs"
  shows "take sz (drop a (take b xs @ ys)) = take sz (drop a xs)"
proof -
  have "drop a (take b xs @ ys) = drop a (take b xs) @ ys"
    using assms by simp
  moreover have "sz \<le> length (drop a (take b xs))"
    using assms by simp
  ultimately have "take sz (drop a (take b xs @ ys)) = take sz (drop a (take b xs))"
    by simp
  also have "\<dots> = take sz (take (b - a) (drop a xs))"
    by (simp add: drop_take)
  also have "\<dots> = take sz (drop a xs)"
    using assms by (simp add: min_def)
  finally show ?thesis .
qed

lemma drop_after:
  assumes "length ys = b" "b \<le> a" "b \<le> length xs"
  shows "drop a (ys @ drop b xs) = drop a xs"
proof -
  obtain c where c: "a = b + c" using assms(2) le_Suc_ex by blast
  have "drop a (ys @ drop b xs) = drop c (drop b xs)"
    using assms(1) c by simp
  then show ?thesis using c by (simp add: add.commute)
qed

lemma slot_update_other:
  assumes "j \<noteq> k" "length r = sz" "Suc k * sz \<le> length xs"
  shows "take sz (drop (j * sz) (take (k * sz) xs @ r @ drop (Suc k * sz) xs)) = take sz (drop (j * sz) xs)"
proof (cases "j < k")
  case True
  then have "Suc j * sz \<le> k * sz" by (simp add: Suc_leI mult_le_mono1 del: mult_Suc)
  then have "j * sz + sz \<le> k * sz" by (simp add: add.commute)
  moreover have "k * sz \<le> length xs" using assms(3) by simp
  ultimately show ?thesis by (rule take_drop_before)
next
  case False
  with assms(1) have "k < j" by simp
  then have le: "Suc k * sz \<le> j * sz" by (simp add: Suc_leI mult_le_mono1 del: mult_Suc)
  have "k * sz \<le> length xs" using assms(3) by simp
  then have len: "length (take (k * sz) xs @ r) = Suc k * sz" using assms(2) by simp
  have "drop (j * sz) ((take (k * sz) xs @ r) @ drop (Suc k * sz) xs) = drop (j * sz) xs"
    using len le assms(3) by (rule drop_after)
  then show ?thesis by simp
qed


lemma broadcast_to_length: "broadcast_to tgt v = Some r \<Longrightarrow> length r = prod_list tgt"
  by (auto simp: broadcast_to_def Let_def split: if_splits)

lemma np_index_nat: "np_index n (int k) = (if k < n then Some k else None)"
  by (simp add: np_index_def)

lemma np_setitem_overflow:
  "np_len a \<le> k \<Longrightarrow> np_setitem a (Some (int k)) v = Inl IndexError"
  by (auto simp: np_setitem_def np_len_def np_index_nat split: list.splits)

lemma np_setitem_at:
  assumes "nd_wf a" "np_setitem a (Some (int k)) v = Inr a'"
  shows "nd_shape a' = nd_shape a" "nd_wf a'" "k < np_len a"
    "broadcast_to (tl (nd_shape a)) v = Some (np_slot a' k)"
    "j \<noteq> k \<Longrightarrow> np_slot a' j = np_slot a j"
proof -
  from assms(2) obtain n rest r where
    sh: "nd_shape a = n # rest" and k: "k < n" and r: "broadcast_to rest v = Some r"
    and a': "a' = a\<lparr>nd_data := take (k * prod_list rest) (nd_data a) @ r
                     @ drop (Suc k * prod_list rest) (nd_data a)\<rparr>"
    by (auto simp: np_setitem_def np_index_nat split: list.splits option.splits if_splits)
  have lr: "length r = prod_list rest" using r by (rule broadcast_to_length)
  have len: "length (nd_data a) = n * prod_list rest" using assms(1) sh by (simp add: nd_wf_def)
  have "Suc k \<le> n" using k by simp
  then have le: "Suc k * prod_list rest \<le> length (nd_data a)"
    unfolding len by (rule mult_le_mono1)
  then have le': "k * prod_list rest \<le> length (nd_data a)" by simp
  show "nd_shape a' = nd_shape a" using a' by simp
  show "k < np_len a" using sh k by (simp add: np_len_def)
  have "length (take (k * prod_list rest) (nd_data a) @ r @ drop (Suc k * prod_list rest) (nd_data a))
        = k * prod_list rest + prod_list rest + (length (nd_data a) - Suc k * prod_list rest)"
    using le' lr by simp
  also have "\<dots> = length (nd_data a)" using le by simp
  finally show "nd_wf a'" using a' sh assms(1) by (simp add: nd_wf_def)
  show "broadcast_to (tl (nd_shape a)) v = Some (np_slot a' k)"
    using sh r a' slot_update_same [OF lr le'] by (simp add: np_slot_def)
  show "np_slot a' j = np_slot a j" if "j \<noteq> k"
    using sh a' slot_update_other [OF that lr le] by (simp add: np_slot_def)
qed

lemma slot_filled_step:
  assumes "slot_filled attribute sts a0 arr"
    and "np_setitem arr (Some (int (length sts))) (attribute st) = Inr arr'"
  shows "slot_filled attribute (sts @ [st]) a0 arr'"
proof -
  have wf: "nd_wf arr" using assms(1) by (simp add: slot_filled_def)
  note at = np_setitem_at [OF wf assms(2)]
  have len: "np_len arr' = np_len arr" using at(1) by (simp add: np_len_def)
  show ?thesis
    unfolding slot_filled_def
  proof (intro conjI ballI)
    show "nd_wf arr'" by (rule at(2))
    show "nd_shape arr' = nd_shape a0" using at(1) assms(1) by (simp add: slot_filled_def)
    show "length (sts @ [st]) \<le> np_len arr'" using at(3) len by simp
  next
    fix i assume "i \<in> {0..<length (sts @ [st])}"
    then have "i < length sts \<or> i = length sts" by auto
    then show "broadcast_to (tl (nd_shape arr')) (attribute ((sts @ [st]) ! i)) = Some (np_slot arr' i)"
    proof
      assume i: "i < length sts"
      have "\<forall>i \<in> {0..<length sts}.
              broadcast_to (tl (nd_shape arr)) (attribute (sts ! i)) = Some (np_slot arr i)"
        using assms(1) unfolding slot_filled_def by blast
      then have "broadcast_to (tl (nd_shape arr)) (attribute (sts ! i)) = Some (np_slot arr i)"
        using i by simp
      moreover have "np_slot arr' i = np_slot arr i" using i by (intro at(5)) simp
      ultimately show ?thesis using i at(1) by (simp add: nth_append)
    next
      assume "i = length sts"
      then show ?thesis using at(4) at(1) by simp
    qed
  next
    fix j assume "j \<in> {length (sts @ [st])..<np_len arr'}"
    then have j: "length sts < j" "j < np_len arr" using len by auto
    have "\<forall>j \<in> {length sts..<np_len arr}. np_slot arr j = np_slot a0 j"
      using assms(1) unfolding slot_filled_def by blast
    then have "np_slot arr j = np_slot a0 j" using j by simp
    moreover have "np_slot arr' j = np_slot arr j" using j by (intro at(5)) simp
    ultimately show "np_slot arr' j = np_slot a0 j" by simp
  qed
qed

section \<open>The force callback and the diagnostic buffers\<close>

subsection \<open>One invocation\<close>

lemma force_as_store_all:
  "force ff q =
     and_then (call_forcefield (ff_call ff q)) (\<lambda>_.
     and_then (store_all (diagnostics ff)) (\<lambda>_.
     and_then increment_step (\<lambda>_.
     read_attr (\<lambda>d. ff_acceleration ff (obj_state (s_forcefield d))))))"
  by (simp add: force_def diagnostics_def and_then_assoc and_then_succeed)

lemma diagnostics_frame:
  assumes "x \<in> set (diagnostics ff)"
  shows "fst x (d\<lparr>s_forcefield := f\<rparr>) = fst x d" "fst x (d\<lparr>s_curr_step := c\<rparr>) = fst x d"
    "fst x (d\<lparr>s_trajectory := tr\<rparr>) = fst x d"
  using assms by (auto simp: diagnostics_def)

lemma store_step_result:
  "store_step buffer attribute (d, h) = (r, s') \<Longrightarrow>
     (\<exists>e. r = Inl e \<and> s' = (d, h)) \<or>
     (\<exists>a arr. r = Inr () \<and> buffer d = Some a \<and> s' = (d, h[a := arr])
        \<and> np_setitem (h ! a) (s_curr_step d) (attribute (obj_state (s_forcefield d))) = Inr arr)"
  by (auto simp: store_step_def split: option.splits sum.splits)

lemma store_all_frame:
  assumes "store_all xs (d, h) = (r, (d', h'))"
  shows "d' = d \<and> length h' = length h \<and> (\<forall>b. Some b \<notin> (\<lambda>x. fst x d) ` set xs \<longrightarrow> h' ! b = h ! b)"
  using assms
proof (induction xs arbitrary: h)
  case Nil
  then show ?case by (simp add: succeed_def)
next
  case (Cons x xs)
  from Cons.prems consider
    (stop) e where "store_step (fst x) (snd x) (d, h) = (Inl e, (d', h'))"
    | (go) u s1 where "store_step (fst x) (snd x) (d, h) = (Inr u, s1)" "store_all xs s1 = (r, (d', h'))"
    by (auto simp: and_then_result)
  then show ?case
  proof cases
    case stop
    then show ?thesis using store_step_result by fastforce
  next
    case go
    from store_step_result [OF go(1)] obtain a arr where
      a: "fst x d = Some a" and s1: "s1 = (d, h[a := arr])" by auto
    from Cons.IH [of "h[a := arr]"] go(2) s1
    have ih: "d' = d" "length h' = length (h[a := arr])"
      "\<forall>b. Some b \<notin> (\<lambda>x. fst x d) ` set xs \<longrightarrow> h' ! b = h[a := arr] ! b" by auto
    show ?thesis
    proof (intro conjI allI impI)
      show "d' = d" by (rule ih(1))
      show "length h' = length h" using ih(2) by simp
      fix b assume b: "Some b \<notin> (\<lambda>x. fst x d) ` set (x # xs)"
      then have "b \<noteq> a" using a by force
      moreover have "h' ! b = h[a := arr] ! b" using b ih(3) by simp
      ultimately show "h' ! b = h ! b" by simp
    qed
  qed
qed

lemma store_all_ok:
  assumes "store_all xs (d, h) = (Inr (), (d', h'))"
    and "distinct (map (\<lambda>x. fst x d) xs)"
    and "\<forall>x \<in> set xs. \<forall>a. fst x d = Some a \<longrightarrow> a < length h"
  shows "\<forall>x \<in> set xs. \<exists>a. fst x d = Some a
           \<and> np_setitem (h ! a) (s_curr_step d) (snd x (obj_state (s_forcefield d))) = Inr (h' ! a)"
  using assms
proof (induction xs arbitrary: h)
  case Nil
  then show ?case by simp
next
  case (Cons x xs)
  from Cons.prems(1) obtain u s1 where
    st: "store_step (fst x) (snd x) (d, h) = (Inr u, s1)" and rest: "store_all xs s1 = (Inr (), (d', h'))"
    by (auto simp: and_then_Inr)
  from store_step_result [OF st] obtain a arr where
    a: "fst x d = Some a" and s1: "s1 = (d, h[a := arr])"
    and set: "np_setitem (h ! a) (s_curr_step d) (snd x (obj_state (s_forcefield d))) = Inr arr"
    by auto
  have notin: "Some a \<notin> (\<lambda>x. fst x d) ` set xs" using Cons.prems(2) a by auto
  have alen: "a < length h" using Cons.prems(3) a by simp
  have fr: "\<forall>b. Some b \<notin> (\<lambda>x. fst x d) ` set xs \<longrightarrow> h' ! b = h[a := arr] ! b"
    using store_all_frame [of xs d "h[a := arr]" "Inr ()" d' h'] rest s1 by simp
  have here: "h' ! a = arr" using fr notin alen by simp
  have ih: "\<forall>y \<in> set xs. \<exists>b. fst y d = Some b
       \<and> np_setitem (h[a := arr] ! b) (s_curr_step d) (snd y (obj_state (s_forcefield d))) = Inr (h' ! b)"
    using Cons.IH [of "h[a := arr]"] rest s1 Cons.prems(2,3) by simp
  show ?case
  proof
    fix y assume "y \<in> set (x # xs)"
    then consider "y = x" | "y \<in> set xs" by auto
    then show "\<exists>b. fst y d = Some b
       \<and> np_setitem (h ! b) (s_curr_step d) (snd y (obj_state (s_forcefield d))) = Inr (h' ! b)"
    proof cases
      case 1
      then show ?thesis using a set here by simp
    next
      case 2
      with ih obtain b where b: "fst y d = Some b"
        "np_setitem (h[a := arr] ! b) (s_curr_step d) (snd y (obj_state (s_forcefield d))) = Inr (h' ! b)"
        by blast
      have "b \<noteq> a" using notin 2 b(1) by force
      then show ?thesis using b by simp
    qed
  qed
qed

lemma call_forcefield_result:
  "call_forcefield m (d, h) = (r, s') \<Longrightarrow>
     \<exists>st'. m (obj_state (s_forcefield d)) = (r, st')
       \<and> s' = (d\<lparr>s_forcefield := (s_forcefield d)\<lparr>obj_state := st'\<rparr>\<rparr>, h)"
  by (auto simp: call_forcefield_def split: prod.splits)

lemma force_step:
  assumes rec: "recorded ff h0 sts (d, h)"
    and run: "force ff q (d, h) = (Inr acc, (d', h'))"
  shows "\<exists>st'. ff_call ff q (obj_state (s_forcefield d)) = (Inr (), st')
           \<and> obj_state (s_forcefield d') = st' \<and> acc = ff_acceleration ff st'
           \<and> recorded ff h0 (sts @ [st']) (d', h')"
proof -
  from run obtain u1 s1 u2 s2 u3 s3 where
    c1: "call_forcefield (ff_call ff q) (d, h) = (Inr u1, s1)"
    and c2: "store_all (diagnostics ff) s1 = (Inr u2, s2)"
    and c3: "increment_step s2 = (Inr u3, s3)"
    and c4: "read_attr (\<lambda>d. ff_acceleration ff (obj_state (s_forcefield d))) s3 = (Inr acc, (d', h'))"
    unfolding force_as_store_all and_then_Inr by blast
  from call_forcefield_result [OF c1] obtain st' where
    st': "ff_call ff q (obj_state (s_forcefield d)) = (Inr u1, st')"
    and s1: "s1 = (d\<lparr>s_forcefield := (s_forcefield d)\<lparr>obj_state := st'\<rparr>\<rparr>, h)" by blast
  define d1 where "d1 = d\<lparr>s_forcefield := (s_forcefield d)\<lparr>obj_state := st'\<rparr>\<rparr>"
  have bufs: "fst x d1 = fst x d" if "x \<in> set (diagnostics ff)" for x
    using that by (simp add: d1_def diagnostics_frame)
  have cnt1: "s_curr_step d1 = Some (int (length sts))"
    using rec by (simp add: recorded_def d1_def)
  have st1: "obj_state (s_forcefield d1) = st'" by (simp add: d1_def)
  obtain d2 h2 where s2: "s2 = (d2, h2)" by (cases s2)
  have c2': "store_all (diagnostics ff) (d1, h) = (Inr (), (d2, h2))"
    using c2 s1 s2 by (simp add: d1_def)
  have fr: "d2 = d1" "length h2 = length h" using store_all_frame [OF c2'] by auto
  have dist1: "distinct (map (\<lambda>x. fst x d1) (diagnostics ff))"
    using rec bufs by (simp add: recorded_def cong: map_cong)
  have valid: "\<forall>x \<in> set (diagnostics ff). \<exists>a. fst x d = Some a \<and> a < length h
                  \<and> slot_filled (snd x) sts (h0 ! a) (h ! a)"
    using rec by (auto simp: recorded_def split: option.splits)
  have lt1: "\<forall>x \<in> set (diagnostics ff). \<forall>a. fst x d1 = Some a \<longrightarrow> a < length h"
    using valid bufs by fastforce
  note ok = store_all_ok [OF c2' dist1 lt1]
  have s3: "s3 = (d1\<lparr>s_curr_step := Some (int (length sts) + 1)\<rparr>, h2)"
    using c3 s2 fr(1) cnt1 by (auto simp: increment_step_def split: option.splits)
  have fin: "d' = d1\<lparr>s_curr_step := Some (int (length sts) + 1)\<rparr>" "h' = h2"
    "acc = ff_acceleration ff st'"
    using c4 s3 st1 by (auto simp: read_attr_def)
  have bufs': "fst x d' = fst x d" if "x \<in> set (diagnostics ff)" for x
    using that bufs by (simp add: fin(1) diagnostics_frame)
  have "recorded ff h0 (sts @ [st']) (d', h')"
    unfolding recorded_def
  proof (simp only: prod.case, intro conjI ballI)
    show "s_curr_step d' = Some (int (length (sts @ [st'])))" by (simp add: fin(1))
    show "length h' = length h0" using fin(2) fr(2) rec by (simp add: recorded_def)
    show "distinct (map (\<lambda>x. fst x d') (diagnostics ff))"
      using rec bufs' by (simp add: recorded_def cong: map_cong)
  next
    fix x assume x: "x \<in> set (diagnostics ff)"
    from valid x obtain a where a: "fst x d = Some a" "a < length h"
      "slot_filled (snd x) sts (h0 ! a) (h ! a)" by blast
    from ok x obtain b where b: "fst x d1 = Some b"
      "np_setitem (h ! b) (s_curr_step d1) (snd x (obj_state (s_forcefield d1))) = Inr (h2 ! b)"
      by blast
    have "b = a" using a(1) b(1) bufs [OF x] by simp
    then have "np_setitem (h ! a) (Some (int (length sts))) (snd x st') = Inr (h2 ! a)"
      using b(2) cnt1 st1 by simp
    from slot_filled_step [OF a(3) this]
    have "slot_filled (snd x) (sts @ [st']) (h0 ! a) (h' ! a)" by (simp add: fin(2))
    then show "case fst x d' of None \<Rightarrow> False
               | Some a \<Rightarrow> a < length h' \<and> slot_filled (snd x) (sts @ [st']) (h0 ! a) (h' ! a)"
      using a(1,2) bufs' [OF x] fin(2) fr(2) by simp
  qed
  moreover have "obj_state (s_forcefield d') = st'" by (simp add: fin(1) st1)
  ultimately show ?thesis using st' fin(3) by auto
qed

lemma drive_recorded:
  assumes "recorded ff h0 sts (d, h)" "drive t ff (d, h) = (Inr res, (d', h'))"
  shows "recorded ff h0 (sts @ ff_states t ff (obj_state (s_forcefield d))) (d', h')"
  using assms
proof (induction t arbitrary: sts d h)
  case (Return p v ts)
  then show ?case by (simp add: succeed_def)
next
  case (Raises e)
  then show ?case by (simp add: raise_def)
next
  case (Calls q k)
  from Calls.prems(2) obtain acc s1 where
    f: "force ff q (d, h) = (Inr acc, s1)" and rest: "drive (k acc) ff s1 = (Inr res, (d', h'))"
    by (auto simp: and_then_Inr)
  obtain d1 h1 where s1: "s1 = (d1, h1)" by (cases s1)
  from force_step [OF Calls.prems(1) f [unfolded s1]] obtain st' where
    st': "ff_call ff q (obj_state (s_forcefield d)) = (Inr (), st')"
    "obj_state (s_forcefield d1) = st'" "acc = ff_acceleration ff st'"
    "recorded ff h0 (sts @ [st']) (d1, h1)" by blast
  have "recorded ff h0 ((sts @ [st']) @ ff_states (k acc) ff (obj_state (s_forcefield d1))) (d', h')"
    using Calls.IH [of "k acc" "sts @ [st']" d1 h1] st'(4) rest s1 by simp
  then show ?case using st'(1,2,3) by simp
qed

subsection \<open>The prepared state\<close>

lemma new_zeros_result:
  "new_zeros dims assign (d, h) = (r, s') \<Longrightarrow>
     (list_ex (\<lambda>x. x < 0) dims \<and> (\<exists>e. r = Inl e) \<and> s' = (d, h)) \<or>
     (\<not> list_ex (\<lambda>x. x < 0) dims \<and> r = Inr ()
        \<and> s' = (assign (Some (length h)) d,
                 h @ [\<lparr>nd_shape = map nat dims, nd_data = replicate (prod_list (map nat dims)) 0\<rparr>]))"
  by (auto simp: new_zeros_def and_then_def lift_result_def np_zeros_def new_array_def write_attr_def
      split: if_splits)

lemma run_prepare_ok:
  assumes "run_prepare ff n pbc (d, h) = (Inr (), (d', h'))"
  defines "ens \<equiv> obj_state (s_ensemble d)"
  shows "0 \<le> n + 1 \<and> 0 \<le> ens_number_molecules_total ens \<and> 0 \<le> ens_number_atoms_total ens
    \<and> h' = h @ [\<lparr>nd_shape = [nat (n + 1)], nd_data = replicate (nat (n + 1)) 0\<rparr>,
               \<lparr>nd_shape = [nat (n + 1)], nd_data = replicate (nat (n + 1)) 0\<rparr>,
               \<lparr>nd_shape = [nat (n + 1)], nd_data = replicate (nat (n + 1)) 0\<rparr>,
               \<lparr>nd_shape = [nat (n + 1)], nd_data = replicate (nat (n + 1)) 0\<rparr>,
               \<lparr>nd_shape = [nat (n + 1), nat (ens_number_molecules_total ens)],
                nd_data = replicate (nat (n + 1) * nat (ens_number_molecules_total ens)) 0\<rparr>,
               \<lparr>nd_shape = [nat (n + 1), nat (ens_number_atoms_total ens), nat (ens_number_atoms_total ens)],
                nd_data = replicate (nat (n + 1) * (nat (ens_number_atoms_total ens) * nat (ens_number_atoms_total ens))) 0\<rparr>]
    \<and> (\<exists>f. d' = d\<lparr>s_forcefield := f,
                   s_energy_potential_coulomb := Some (length h),
                   s_energy_potential_lennard_jones := Some (length h + 1),
                   s_energy_potential_bond_vibration := Some (length h + 2),
                   s_energy_potential_angle_vibration := Some (length h + 3),
                   s_bond_angles := Some (length h + 4),
                   s_distances_interatomic := Some (length h + 5),
                   s_curr_step := Some 0\<rparr>)"
proof -
  from assms(1) obtain d1 h1 d2 h2 d3 h3 d4 h4 d5 h5 d6 h6 d7 h7 d8 h8 where
    1: "new_zeros [n + 1] (\<lambda>a d. d\<lparr>s_energy_potential_coulomb := a\<rparr>) (d, h) = (Inr (), (d1, h1))"
    and 2: "new_zeros [n + 1] (\<lambda>a d. d\<lparr>s_energy_potential_lennard_jones := a\<rparr>) (d1, h1) = (Inr (), (d2, h2))"
    and 3: "new_zeros [n + 1] (\<lambda>a d. d\<lparr>s_energy_potential_bond_vibration := a\<rparr>) (d2, h2) = (Inr (), (d3, h3))"
    and 4: "new_zeros [n + 1] (\<lambda>a d. d\<lparr>s_energy_potential_angle_vibration := a\<rparr>) (d3, h3) = (Inr (), (d4, h4))"
    and 5: "new_zeros [n + 1, ens_number_molecules_total (obj_state (ensemble d4))]
              (\<lambda>a d. d\<lparr>s_bond_angles := a\<rparr>) (d4, h4) = (Inr (), (d5, h5))"
    and 6: "new_zeros [n + 1, ens_number_atoms_total (obj_state (ensemble d4)),
                       ens_number_atoms_total (obj_state (ensemble d4))]
              (\<lambda>a d. d\<lparr>s_distances_interatomic := a\<rparr>) (d5, h5) = (Inr (), (d6, h6))"
    and 7: "call_forcefield (ff_initialize_forcefield ff (nd_shape (ens_positions (obj_state (ensemble d4))))
              (if pbc then Some (ens_box_lengths (obj_state (ensemble d4))) else None)) (d6, h6) = (Inr (), (d7, h7))"
    and 8: "call_forcefield (ff_fit_units_to_input_data ff (ens_unit_positions (obj_state (ensemble d4)))
              (ens_unit_time (obj_state (ensemble d4)))) (d7, h7) = (Inr (), (d8, h8))"
    and 9: "write_attr (\<lambda>d. d\<lparr>s_curr_step := Some 0\<rparr>) (d8, h8) = (Inr (), (d', h'))"
    unfolding run_prepare_def and_then_Inr read_attr_def by (auto split: prod.splits)
  note z1 = new_zeros_result [OF 1] and z2 = new_zeros_result [OF 2] and z3 = new_zeros_result [OF 3]
    and z4 = new_zeros_result [OF 4] and z5 = new_zeros_result [OF 5] and z6 = new_zeros_result [OF 6]
    and c7 = call_forcefield_result [OF 7] and c8 = call_forcefield_result [OF 8]
  have e1: "d1 = d\<lparr>s_energy_potential_coulomb := Some (length h)\<rparr>"
    "h1 = h @ [\<lparr>nd_shape = [nat (n + 1)], nd_data = replicate (nat (n + 1)) 0\<rparr>]" "0 \<le> n + 1"
    using z1 by auto
  have e2: "d2 = d1\<lparr>s_energy_potential_lennard_jones := Some (length h1)\<rparr>"
    "h2 = h1 @ [\<lparr>nd_shape = [nat (n + 1)], nd_data = replicate (nat (n + 1)) 0\<rparr>]"
    using z2 by auto
  have e3: "d3 = d2\<lparr>s_energy_potential_bond_vibration := Some (length h2)\<rparr>"
    "h3 = h2 @ [\<lparr>nd_shape = [nat (n + 1)], nd_data = replicate (nat (n + 1)) 0\<rparr>]"
    using z3 by auto
  have e4: "d4 = d3\<lparr>s_energy_potential_angle_vibration := Some (length h3)\<rparr>"
    "h4 = h3 @ [\<lparr>nd_shape = [nat (n + 1)], nd_data = replicate (nat (n + 1)) 0\<rparr>]"
    using z4 by auto
  have ens4: "obj_state (ensemble d4) = ens"
    by (simp add: e1 e2 e3 e4 ensemble_def ens_def)
  have e5: "d5 = d4\<lparr>s_bond_angles := Some (length h4)\<rparr>"
    "h5 = h4 @ [\<lparr>nd_shape = [nat (n + 1), nat (ens_number_molecules_total ens)],
                nd_data = replicate (nat (n + 1) * nat (ens_number_molecules_total ens)) 0\<rparr>]"
    "0 \<le> ens_number_molecules_total ens"
    using z5 unfolding ens4 by auto
  have e6: "d6 = d5\<lparr>s_distances_interatomic := Some (length h5)\<rparr>"
    "h6 = h5 @ [\<lparr>nd_shape = [nat (n + 1), nat (ens_number_atoms_total ens), nat (ens_number_atoms_total ens)],
                nd_data = replicate (nat (n + 1) * (nat (ens_number_atoms_total ens) * nat (ens_number_atoms_total ens))) 0\<rparr>]"
    "0 \<le> ens_number_atoms_total ens"
    using z6 unfolding ens4 by auto
  from c7 obtain st7 where e7: "d7 = d6\<lparr>s_forcefield := (s_forcefield d6)\<lparr>obj_state := st7\<rparr>\<rparr>" "h7 = h6"
    by auto
  from c8 obtain st8 where e8: "d8 = d7\<lparr>s_forcefield := (s_forcefield d7)\<lparr>obj_state := st8\<rparr>\<rparr>" "h8 = h7"
    by auto
  have e9: "d' = d8\<lparr>s_curr_step := Some 0\<rparr>" "h' = h8"
    using 9 by (auto simp: write_attr_def)
  have "h' = h @ [\<lparr>nd_shape = [nat (n + 1)], nd_data = replicate (nat (n + 1)) 0\<rparr>,
               \<lparr>nd_shape = [nat (n + 1)], nd_data = replicate (nat (n + 1)) 0\<rparr>,
               \<lparr>nd_shape = [nat (n + 1)], nd_data = replicate (nat (n + 1)) 0\<rparr>,
               \<lparr>nd_shape = [nat (n + 1)], nd_data = replicate (nat (n + 1)) 0\<rparr>,
               \<lparr>nd_shape = [nat (n + 1), nat (ens_number_molecules_total ens)],
                nd_data = replicate (nat (n + 1) * nat (ens_number_molecules_total ens)) 0\<rparr>,
               \<lparr>nd_shape = [nat (n + 1), nat (ens_number_atoms_total ens), nat (ens_number_atoms_total ens)],
                nd_data = replicate (nat (n + 1) * (nat (ens_number_atoms_total ens) * nat (ens_number_atoms_total ens))) 0\<rparr>]"
    by (simp add: e9 e8 e7 e6 e5 e4 e3 e2 e1)
  moreover have "d' = d\<lparr>s_forcefield := (s_forcefield d)\<lparr>obj_state := st8\<rparr>,
                   s_energy_potential_coulomb := Some (length h),
                   s_energy_potential_lennard_jones := Some (length h + 1),
                   s_energy_potential_bond_vibration := Some (length h + 2),
                   s_energy_potential_angle_vibration := Some (length h + 3),
                   s_bond_angles := Some (length h + 4),
                   s_distances_interatomic := Some (length h + 5),
                   s_curr_step := Some 0\<rparr>"
    by (simp add: e9 e8 e7 e6 e5 e4 e3 e2 e1)
  ultimately show ?thesis using e1(3) e5(3) e6(3) by blast
qed

lemma slot_filled_start: "nd_wf a \<Longrightarrow> slot_filled attribute [] a a"
  by (simp add: slot_filled_def)

lemma run_prepare_recorded:
  assumes "run_prepare ff n pbc (d, h) = (Inr (), (d', h'))"
  shows "recorded ff h' [] (d', h')"
proof -
  note ok = run_prepare_ok [OF assms]
  from ok obtain f where d': "d' = d\<lparr>s_forcefield := f,
                   s_energy_potential_coulomb := Some (length h),
                   s_energy_potential_lennard_jones := Some (length h + 1),
                   s_energy_potential_bond_vibration := Some (length h + 2),
                   s_energy_potential_angle_vibration := Some (length h + 3),
                   s_bond_angles := Some (length h + 4),
                   s_distances_interatomic := Some (length h + 5),
                   s_curr_step := Some 0\<rparr>" by blast
  from ok obtain z1 z2 z3 z4 z5 z6 where h': "h' = h @ [z1, z2, z3, z4, z5, z6]"
    and wf: "nd_wf z1" "nd_wf z2" "nd_wf z3" "nd_wf z4" "nd_wf z5" "nd_wf z6"
    by (auto simp: nd_wf_def)
  show ?thesis
    unfolding recorded_def
    by (simp add: d' h' diagnostics_def nth_append slot_filled_start wf)
qed



lemmas force_eval = force_def store_step_def increment_step_def call_forcefield_def np_setitem_def
  np_index_def broadcast_to_def pad_shape_def

lemma bench_prepared_eq:
  "run_prepare (stub_forcefield 2) 1 False (bench_driver, []) = (Inr (), bench_prepared)"
  by (simp add: bench_prepared_def run_prepare_def new_zeros_def np_zeros_def call_forcefield_def
      ensemble_def prog_defs bench_defs)

lemmas bench_prepared_eval = bench_prepared_def run_prepare_def new_zeros_def np_zeros_def
  call_forcefield_def ensemble_def prog_defs bench_defs


subsection \<open>Overflow\<close>

lemma advance_recorded:
  assumes "advance m ff t s = Some (t', s')" "recorded ff h0 sts s"
  shows "\<exists>sts'. length sts' = m \<and> recorded ff h0 (sts @ sts') s'"
  using assms
proof (induction m arbitrary: t s sts)
  case 0
  then show ?case by simp
next
  case (Suc m)
  from Suc.prems(1) obtain q k acc s1 where
    t: "t = Calls q k" and f: "force ff q s = (Inr acc, s1)" and rest: "advance m ff (k acc) s1 = Some (t', s')"
    by (auto split: integ.splits prod.splits sum.splits)
  obtain d h where s: "s = (d, h)" by (cases s)
  obtain d1 h1 where s1: "s1 = (d1, h1)" by (cases s1)
  from force_step [OF Suc.prems(2) [unfolded s] f [unfolded s s1]] obtain st' where
    "recorded ff h0 (sts @ [st']) (d1, h1)" by blast
  from Suc.IH [OF rest this [folded s1]] obtain sts' where
    "length sts' = m" "recorded ff h0 ((sts @ [st']) @ sts') s'" by blast
  then have "length (st' # sts') = Suc m \<and> recorded ff h0 (sts @ (st' # sts')) s'" by simp
  then show ?case by blast
qed

lemma advance_drive:
  assumes "advance m ff t s = Some (t', s')"
  shows "drive t ff s = drive t' ff s'"
  using assms
proof (induction m arbitrary: t s)
  case 0
  then show ?case by simp
next
  case (Suc m)
  from Suc.prems obtain q k acc s1 where
    t: "t = Calls q k" and f: "force ff q s = (Inr acc, s1)" and rest: "advance m ff (k acc) s1 = Some (t', s')"
    by (auto split: integ.splits prod.splits sum.splits)
  have "drive t ff s = drive (k acc) ff s1" using t f by (simp add: and_then_def)
  then show ?case using Suc.IH [OF rest] by simp
qed

lemma force_overflow:
  assumes rec: "recorded ff h0 sts (d, h)"
    and a: "s_energy_potential_coulomb d = Some a" and full: "np_len (h ! a) \<le> length sts"
  shows "force ff q (d, h) =
     (Inl (case fst (ff_call ff q (obj_state (s_forcefield d))) of Inl e \<Rightarrow> e | Inr u \<Rightarrow> IndexError),
      (d\<lparr>s_forcefield := (s_forcefield d)\<lparr>obj_state := snd (ff_call ff q (obj_state (s_forcefield d)))\<rparr>\<rparr>, h))"
proof -
  have cnt: "s_curr_step d = Some (int (length sts))" using rec by (simp add: recorded_def)
  obtain r st' where c: "ff_call ff q (obj_state (s_forcefield d)) = (r, st')"
    by (metis prod.collapse)
  show ?thesis
  proof (cases r)
    case (Inl e)
    then show ?thesis using c by (simp add: force_def and_then_def call_forcefield_def)
  next
    case (Inr u)
    have "np_setitem (h ! a) (Some (int (length sts))) v = Inl IndexError" for v
      using full by (rule np_setitem_overflow)
    then show ?thesis
      using c Inr a cnt by (simp add: force_def and_then_def call_forcefield_def store_step_def)
  qed
qed

lemma only_forcefield_and_step_refl:
  "\<exists>f c. d = d\<lparr>s_forcefield := f, s_curr_step := c\<rparr>"
  by (rule exI [of _ "s_forcefield d"], rule exI [of _ "s_curr_step d"]) simp

lemma force_frame:
  assumes "force ff q (d, h) = (r, (d', h'))"
  shows "(\<exists>f c. d' = d\<lparr>s_forcefield := f, s_curr_step := c\<rparr>) \<and> length h' = length h
     \<and> (\<forall>b. Some b \<notin> (\<lambda>x. fst x d) ` set (diagnostics ff) \<longrightarrow> h' ! b = h ! b)"
proof -
  obtain r1 s1 where c1: "call_forcefield (ff_call ff q) (d, h) = (r1, s1)"
    by (metis prod.collapse)
  from call_forcefield_result [OF c1] obtain st' where
    s1: "s1 = (d\<lparr>s_forcefield := (s_forcefield d)\<lparr>obj_state := st'\<rparr>\<rparr>, h)" by blast
  define d1 where "d1 = d\<lparr>s_forcefield := (s_forcefield d)\<lparr>obj_state := st'\<rparr>\<rparr>"
  have d1: "\<exists>f c. d1 = d\<lparr>s_forcefield := f, s_curr_step := c\<rparr>"
    unfolding d1_def
    by (rule exI [of _ "(s_forcefield d)\<lparr>obj_state := st'\<rparr>"], rule exI [of _ "s_curr_step d"]) simp
  have img: "(\<lambda>x. fst x d1) ` set (diagnostics ff) = (\<lambda>x. fst x d) ` set (diagnostics ff)"
    by (simp add: d1_def diagnostics_def)
  show ?thesis
  proof (cases r1)
    case (Inl e)
    then have "(d', h') = (d1, h)" using assms c1 s1
      by (simp add: force_as_store_all and_then_def d1_def)
    then show ?thesis using d1 by auto
  next
    case (Inr u)
    obtain r2 d2 h2 where c2: "store_all (diagnostics ff) (d1, h) = (r2, (d2, h2))"
      by (metis prod.collapse)
    note fr = store_all_frame [OF c2]
    have mid: "(\<exists>f c. d2 = d\<lparr>s_forcefield := f, s_curr_step := c\<rparr>) \<and> length h2 = length h
       \<and> (\<forall>b. Some b \<notin> (\<lambda>x. fst x d) ` set (diagnostics ff) \<longrightarrow> h2 ! b = h ! b)"
      using fr d1 img by auto
    show ?thesis
    proof (cases r2)
      case (Inl e)
      then have "(d', h') = (d2, h2)" using assms c1 s1 c2 \<open>r1 = Inr u\<close>
        by (simp add: force_as_store_all and_then_def d1_def)
      then show ?thesis using mid by auto
    next
      case (Inr u2)
      have step: "force ff q (d, h) =
          and_then increment_step (\<lambda>_. read_attr (\<lambda>d. ff_acceleration ff (obj_state (s_forcefield d)))) (d2, h2)"
        using c1 s1 c2 Inr \<open>r1 = Inr u\<close> by (simp add: force_as_store_all and_then_def d1_def)
      from mid obtain f c where d2: "d2 = d\<lparr>s_forcefield := f, s_curr_step := c\<rparr>" by blast
      have "h' = h2 \<and> (d' = d2 \<or> (\<exists>c'. d' = d2\<lparr>s_curr_step := c'\<rparr>))"
        using assms unfolding step
        by (auto simp: and_then_def increment_step_def read_attr_def split: option.splits)
      then have "h' = h2 \<and> (\<exists>f c. d' = d\<lparr>s_forcefield := f, s_curr_step := c\<rparr>)"
        using d2 by auto
      then show ?thesis using mid by auto
    qed
  qed
qed

lemma advance_frame:
  assumes "advance m ff t (d, h) = Some (t', (d', h'))"
  shows "\<exists>f c. d' = d\<lparr>s_forcefield := f, s_curr_step := c\<rparr>"
  using assms
proof (induction m arbitrary: t d h)
  case 0
  then show ?case using only_forcefield_and_step_refl by simp
next
  case (Suc m)
  from Suc.prems obtain q k acc d1 h1 where
    f: "force ff q (d, h) = (Inr acc, (d1, h1))" and rest: "advance m ff (k acc) (d1, h1) = Some (t', (d', h'))"
    by (auto split: integ.splits prod.splits sum.splits)
  from force_frame [OF f] obtain f1 c1 where "d1 = d\<lparr>s_forcefield := f1, s_curr_step := c1\<rparr>" by blast
  moreover from Suc.IH [OF rest] obtain f2 c2 where "d' = d1\<lparr>s_forcefield := f2, s_curr_step := c2\<rparr>" by blast
  ultimately have "d' = d\<lparr>s_forcefield := f2, s_curr_step := c2\<rparr>" by simp
  then show ?case by blast
qed

text \<open>
  C2 (step overflow). In a run prepared for \<open>num_steps\<close> steps, when the integrator makes a
  further call after \<open>num_steps + 1\<close> invocations that returned normally, that invocation
  raises: IndexError when the force field itself returned normally. The store is left
  as it was, so no buffer is grown, wrapped around or overwritten: the six buffers still
  hold the record of the \<open>num_steps + 1\<close> invocations. The integration, and with it the run,
  ends with that exception.
\<close>

theorem step_overflow_detected:
  assumes "run_prepare ff num_steps pbc (d0, h0) = (Inr (), (d1, h1))"
    and "advance (nat (num_steps + 1)) ff t (d1, h1) = Some (Calls q k, (d, h))"
  shows "let r = ff_call ff q (obj_state (s_forcefield d));
             e = (case fst r of Inl e \<Rightarrow> e | Inr u \<Rightarrow> IndexError);
             d' = d\<lparr>s_forcefield := (s_forcefield d)\<lparr>obj_state := snd r\<rparr>\<rparr>
         in force ff q (d, h) = (Inl e, (d', h))
            \<and> drive t ff (d1, h1) = (Inl e, (d', h))
            \<and> (\<exists>sts. length sts = nat (num_steps + 1) \<and> recorded ff h1 sts (d, h))"
proof -
  from advance_recorded [OF assms(2) run_prepare_recorded [OF assms(1)]]
  obtain sts where sts: "length sts = nat (num_steps + 1)" "recorded ff h1 sts (d, h)" by auto
  from run_prepare_ok [OF assms(1)] have
    d1: "s_energy_potential_coulomb d1 = Some (length h0)"
    and len: "np_len (h1 ! length h0) = nat (num_steps + 1)"
    by (auto simp: np_len_def)
  from advance_frame [OF assms(2)] have a: "s_energy_potential_coulomb d = Some (length h0)"
    using d1 by auto
  have "(s_energy_potential_coulomb, ff_energy_coulomb ff) \<in> set (diagnostics ff)"
    by (simp add: diagnostics_def)
  with sts(2) a have "slot_filled (ff_energy_coulomb ff) sts (h1 ! length h0) (h ! length h0)"
    by (fastforce simp: recorded_def)
  then have "np_len (h ! length h0) = np_len (h1 ! length h0)"
    by (simp add: slot_filled_def np_len_def)
  then have full: "np_len (h ! length h0) \<le> length sts" using len sts(1) by simp
  note f = force_overflow [OF sts(2) a full, of q]
  have "drive t ff (d1, h1) = drive (Calls q k) ff (d, h)" by (rule advance_drive [OF assms(2)])
  then have "drive t ff (d1, h1) =
     (Inl (case fst (ff_call ff q (obj_state (s_forcefield d))) of Inl e \<Rightarrow> e | Inr u \<Rightarrow> IndexError),
      (d\<lparr>s_forcefield := (s_forcefield d)\<lparr>obj_state := snd (ff_call ff q (obj_state (s_forcefield d)))\<rparr>\<rparr>, h))"
    using f by (simp add: and_then_def)
  then show ?thesis using f sts by (auto simp: Let_def)
qed

theorem step_overflow_detected_witness:
  "fst (drive (overrun_integrate (ens_positions stub_ensemble) (ens_velocities stub_ensemble) 1 1)
          (stub_forcefield 2) bench_prepared) = Inl IndexError"
proof -
  let ?t = "overrun_integrate (ens_positions stub_ensemble) (ens_velocities stub_ensemble) 1 1"
  obtain q k d h where adv: "advance (nat (1 + 1)) (stub_forcefield 2) ?t (fst bench_prepared, snd bench_prepared)
      = Some (Calls q k, (d, h))"
    by (simp add: overrun_integrate_def eval_nat_numeral force_eval bench_prepared_eval)
  have p: "run_prepare (stub_forcefield 2) 1 False (bench_driver, [])
             = (Inr (), (fst bench_prepared, snd bench_prepared))"
    using bench_prepared_eq by simp
  have "fst (ff_call (stub_forcefield 2) q st) = Inr ()" for st
    by (simp add: stub_forcefield_def)
  then show ?thesis
    using step_overflow_detected [OF p adv] by (simp add: Let_def)
qed

section \<open>Runs\<close>

subsection \<open>What the integration leaves unchanged\<close>

lemma diagnostics_image_frame:
  "(\<lambda>x. fst x (d\<lparr>s_forcefield := f, s_curr_step := c\<rparr>)) ` set (diagnostics ff)
     = (\<lambda>x. fst x d) ` set (diagnostics ff)"
  by (simp add: diagnostics_def)

lemma drive_frame:
  assumes "drive t ff (d, h) = (r, (d', h'))"
  shows "(\<exists>f c. d' = d\<lparr>s_forcefield := f, s_curr_step := c\<rparr>) \<and> length h' = length h
     \<and> (\<forall>b. Some b \<notin> (\<lambda>x. fst x d) ` set (diagnostics ff) \<longrightarrow> h' ! b = h ! b)"
  using assms
proof (induction t arbitrary: d h)
  case (Return p v ts)
  then show ?case using only_forcefield_and_step_refl by (simp add: succeed_def)
next
  case (Raises e)
  then show ?case using only_forcefield_and_step_refl by (simp add: raise_def)
next
  case (Calls q k)
  obtain r1 d1 h1 where f: "force ff q (d, h) = (r1, (d1, h1))" by (metis prod.collapse)
  from force_frame [OF f] obtain f1 c1 where
    d1: "d1 = d\<lparr>s_forcefield := f1, s_curr_step := c1\<rparr>" and l1: "length h1 = length h"
    and u1: "\<forall>b. Some b \<notin> (\<lambda>x. fst x d) ` set (diagnostics ff) \<longrightarrow> h1 ! b = h ! b" by blast
  show ?case
  proof (cases r1)
    case (Inl e)
    then have "(d', h') = (d1, h1)" using Calls.prems f by (simp add: and_then_def)
    then show ?thesis using d1 l1 u1 by blast
  next
    case (Inr acc)
    then have "drive (k acc) ff (d1, h1) = (r, (d', h'))" using Calls.prems f by (simp add: and_then_def)
    from Calls.IH [OF _ this] obtain f2 c2 where
      d2: "d' = d1\<lparr>s_forcefield := f2, s_curr_step := c2\<rparr>" and l2: "length h' = length h1"
      and u2: "\<forall>b. Some b \<notin> (\<lambda>x. fst x d1) ` set (diagnostics ff) \<longrightarrow> h' ! b = h1 ! b" by blast
    have "d' = d\<lparr>s_forcefield := f2, s_curr_step := c2\<rparr>" using d1 d2 by simp
    moreover have "\<forall>b. Some b \<notin> (\<lambda>x. fst x d) ` set (diagnostics ff) \<longrightarrow> h' ! b = h ! b"
      using u1 u2 unfolding d1 diagnostics_image_frame by simp
    ultimately show ?thesis using l1 l2 by auto
  qed
qed

lemma grows_refl: "grows s s"
  by (simp add: grows_def)

lemma grows_trans: "grows a b \<Longrightarrow> grows b c \<Longrightarrow> grows a c"
  by (auto simp: grows_def)

lemma keeps_and_then:
  assumes "\<And>a b c. R a b \<Longrightarrow> R b c \<Longrightarrow> R a c" "keeps R m" "\<And>x. keeps R (f x)"
  shows "keeps R (and_then m f)"
  unfolding keeps_def
proof (intro allI impI)
  fix s r s' assume "and_then m f s = (r, s')"
  then consider e where "m s = (Inl e, s')" | x s1 where "m s = (Inr x, s1)" "f x s1 = (r, s')"
    by (auto simp: and_then_result)
  then show "R s s'"
  proof cases
    case 1
    then show ?thesis using assms(2) by (simp add: keeps_def)
  next
    case 2
    then have "R s s1" "R s1 s'" using assms(2,3) by (auto simp: keeps_def)
    then show ?thesis by (rule assms(1))
  qed
qed

lemma keeps_grows_and_then:
  "keeps grows m \<Longrightarrow> (\<And>x. keeps grows (f x)) \<Longrightarrow> keeps grows (and_then m f)"
  by (rule keeps_and_then [OF grows_trans])

lemma keeps_grows_write_attr:
  "(\<And>d. s_trajectory (upd d) = s_trajectory d) \<Longrightarrow> keeps grows (write_attr upd)"
  by (simp add: keeps_def grows_def write_attr_def)

lemma keeps_grows_read_attr: "keeps grows (read_attr f)"
  by (simp add: keeps_def grows_def read_attr_def)

lemma keeps_grows_new_array: "keeps grows (new_array a)"
  by (auto simp: keeps_def grows_def new_array_def)

lemma keeps_grows_lift_result: "keeps grows (lift_result r)"
  by (simp add: keeps_def grows_def lift_result_def)

lemma keeps_grows_call_forcefield: "keeps grows (call_forcefield m)"
  by (auto simp: keeps_def grows_def call_forcefield_def split: prod.splits)

lemma keeps_grows_new_zeros:
  "(\<And>a d. s_trajectory (assign a d) = s_trajectory d) \<Longrightarrow> keeps grows (new_zeros dims assign)"
  unfolding new_zeros_def
  by (intro keeps_grows_and_then keeps_grows_lift_result keeps_grows_new_array keeps_grows_write_attr)

lemma keeps_grows_run_prepare: "keeps grows (run_prepare ff n pbc)"
  unfolding run_prepare_def
  by (intro keeps_grows_and_then keeps_grows_new_zeros keeps_grows_read_attr
      keeps_grows_call_forcefield keeps_grows_write_attr) simp_all

subsection \<open>The trajectory constructor\<close>

lemma units_onlyI:
  "t' = t\<lparr>t_unit_mass := t_unit_mass t', t_unit_length := t_unit_length t',
           t_unit_time := t_unit_time t', t_unit_velocity := t_unit_velocity t',
           t_unit_momentum := t_unit_momentum t', t_unit_energy := t_unit_energy t'\<rparr>
   \<Longrightarrow> units_only t t'"
  unfolding units_only_def by (intro exI) assumption

lemma units_only_refl: "units_only t t"
  by (rule units_onlyI) simp

lemma units_only_trans: "units_only a b \<Longrightarrow> units_only b c \<Longrightarrow> units_only a c"
  unfolding units_only_def by (elim exE, intro exI) simp

lemma keeps_units_and_then:
  "keeps units_only m \<Longrightarrow> (\<And>x. keeps units_only (f x)) \<Longrightarrow> keeps units_only (and_then m f)"
  by (rule keeps_and_then [OF units_only_trans])

lemma keeps_units_lift_result: "keeps units_only (lift_result r)"
  by (simp add: keeps_def lift_result_def units_only_refl)

lemma keeps_units_unit_mass: "keeps units_only (unit_mass us)"
  unfolding keeps_def unit_mass_def
  by (auto split: pyunit.splits sum.splits intro: units_only_refl units_onlyI)

lemma keeps_units_unit_length: "keeps units_only (unit_length us)"
  unfolding keeps_def unit_length_def
  by (auto split: pyunit.splits sum.splits intro: units_only_refl units_onlyI)

lemma keeps_units_unit_time: "keeps units_only (unit_time us)"
  unfolding keeps_def unit_time_def
  by (auto split: pyunit.splits sum.splits intro: units_only_refl units_onlyI)

lemma keeps_units_store:
  "(\<And>t. units_only t (upd t)) \<Longrightarrow> keeps units_only (\<lambda>t. (Inr v, upd t))"
  by (simp add: keeps_def)

lemma keeps_units_case:
  assumes "keeps units_only m"
  shows "keeps units_only (\<lambda>t. case sel t of PyNone \<Rightarrow> m t | x \<Rightarrow> (Inr x, t))"
  using assms by (auto simp: keeps_def units_only_refl split: pyunit.splits)

lemma keeps_units_unit_velocity: "keeps units_only (unit_velocity us)"
  unfolding unit_velocity_def
  by (intro keeps_units_case keeps_units_and_then keeps_units_unit_length keeps_units_unit_time
      keeps_units_lift_result keeps_units_store units_onlyI) simp

lemma keeps_units_unit_momentum: "keeps units_only (unit_momentum us)"
  unfolding unit_momentum_def
  by (intro keeps_units_case keeps_units_and_then keeps_units_unit_mass keeps_units_unit_velocity
      keeps_units_lift_result keeps_units_store units_onlyI) simp

lemma keeps_units_unit_energy: "keeps units_only (unit_energy us)"
  unfolding unit_energy_def
  by (intro keeps_units_case keeps_units_and_then keeps_units_unit_mass keeps_units_unit_length
      keeps_units_unit_time keeps_units_lift_result keeps_units_store units_onlyI) simp

lemma TrajectoryAnalyzer_init_store:
  assumes "TrajectoryAnalyzer_init us p v ts an mi cm c lj bv av di ba ul ut uv ue ua h = (r, h')"
  shows "\<exists>ext. h' = h @ ext"
  using assms unfolding TrajectoryAnalyzer_init_def
  by (auto simp: and_then_def lift_result_def succeed_def split: sum.splits prod.splits)

lemma lift_result_apply: "lift_result r s = (r, s)"
  by (simp add: lift_result_def)

lemma succeed_apply: "succeed x s = (Inr x, s)"
  by (simp add: succeed_def)

lemma momentum_step_units_only:
  assumes "fst (and_then (unit_mass us) (\<lambda>m.
            and_then (unit_velocity us) (\<lambda>v.
            and_then (lift_result (py_times us m v)) (\<lambda>p.
            (\<lambda>t. (Inr (t\<lparr>t_unit_momentum := p\<rparr>), t))))) t0) = Inr t1"
  shows "units_only t0 t1"
proof -
  let ?m = "and_then (unit_mass us) (\<lambda>m.
            and_then (unit_velocity us) (\<lambda>v.
            and_then (lift_result (py_times us m v)) (\<lambda>p.
            (\<lambda>t. (Inr (t\<lparr>t_unit_momentum := p\<rparr>), t)))))"
  have k: "keeps units_only ?m"
    by (intro keeps_units_and_then keeps_units_unit_mass keeps_units_unit_velocity
        keeps_units_lift_result) (simp add: keeps_def units_only_refl)
  obtain t2 where m2: "?m t0 = (Inr t1, t2)" using assms by (cases "?m t0") simp
  then have u: "units_only t0 t2" using k unfolding keeps_def by blast
  from m2 have "\<exists>pm. t1 = t2\<lparr>t_unit_momentum := pm\<rparr>"
    unfolding and_then_Inr by blast
  then obtain pm where "t1 = t2\<lparr>t_unit_momentum := pm\<rparr>" ..
  then have "units_only t2 t1" by (intro units_onlyI) simp
  with u show ?thesis by (rule units_only_trans)
qed

lemma and_then_InrE:
  assumes "and_then m f s = (Inr y, s')"
  obtains x s1 where "m s = (Inr x, s1)" "f x s1 = (Inr y, s')"
  using assms by (auto simp: and_then_Inr)

lemma units_only_fields:
  assumes "units_only t t'"
  shows "t_positions t' = t_positions t" "t_velocities t' = t_velocities t"
    "t_timestamps t' = t_timestamps t"
    "t_energy_potential_coulomb t' = t_energy_potential_coulomb t"
    "t_energy_potential_lennard_jones t' = t_energy_potential_lennard_jones t"
    "t_energy_potential_bond_vibration t' = t_energy_potential_bond_vibration t"
    "t_energy_potential_angle_vibration t' = t_energy_potential_angle_vibration t"
    "t_distances_interatomic t' = t_distances_interatomic t" "t_bond_angles t' = t_bond_angles t"
    "t_masses t' = t_masses t" "t_unit_temperature t' = t_unit_temperature t"
    "t_speeds t' = t_speeds t" "t_momenta t' = t_momenta t"
    "t_energy_kinetic_per_atom t' = t_energy_kinetic_per_atom t"
    "t_temperature t' = t_temperature t" "t_energy_kinetic_total t' = t_energy_kinetic_total t"
    "t_energy_potential_total t' = t_energy_potential_total t" "t_energy_total t' = t_energy_total t"
  using assms by (auto simp: units_only_def)

lemma units_only_bond_lengths: "units_only t t' \<Longrightarrow> t_bond_lengths t' = t_bond_lengths t"
  by (auto simp: units_only_def)


lemma TrajectoryAnalyzer_init_fields:
  assumes "TrajectoryAnalyzer_init us p v ts an mi cm c lj bv av di ba ul ut uv ue ua h = (Inr tr, h')"
  shows "t_positions tr = p \<and> t_velocities tr = v \<and> t_timestamps tr = ts
    \<and> t_energy_potential_coulomb tr = c \<and> t_energy_potential_lennard_jones tr = lj
    \<and> t_energy_potential_bond_vibration tr = bv \<and> t_energy_potential_angle_vibration tr = av
    \<and> t_distances_interatomic tr = di \<and> t_bond_angles tr = ba"
  using assms unfolding TrajectoryAnalyzer_init_def
  apply (elim and_then_InrE)
  apply (simp only: lift_result_apply succeed_apply prod.inject sum.inject)
  apply (elim conjE)
  apply (drule momentum_step_units_only)
  apply (frule units_only_fields(1))
  apply (frule units_only_fields(2))
  apply (frule units_only_fields(3))
  apply (frule units_only_fields(4))
  apply (frule units_only_fields(5))
  apply (frule units_only_fields(6))
  apply (frule units_only_fields(7))
  apply (frule units_only_fields(8))
  apply (frule units_only_fields(9))
  apply (thin_tac "units_only _ _")
  apply clarsimp
  done

subsection \<open>Outcome of a run\<close>

lemma run_decompose:
  assumes "run ff us integrate n dt pbc (d, h) = (r, (d', h'))"
  obtains (prepare_failed) e where
      "run_prepare ff n pbc (d, h) = (Inl e, (d', h'))" "r = Inl e"
  | (integrate_failed) d1 h1 e where
      "run_prepare ff n pbc (d, h) = (Inr (), (d1, h1))"
      "drive (integrate (ens_positions (obj_state (s_ensemble d1)))
                (ens_velocities (obj_state (s_ensemble d1))) dt n) ff (d1, h1) = (Inl e, (d', h'))"
      "r = Inl e"
  | (integrated) d1 h1 p v t d2 h2 where
      "run_prepare ff n pbc (d, h) = (Inr (), (d1, h1))"
      "drive (integrate (ens_positions (obj_state (s_ensemble d1)))
                (ens_velocities (obj_state (s_ensemble d1))) dt n) ff (d1, h1) = (Inr (p, v, t), (d2, h2))"
      "run_package ff us (d2\<lparr>s_positions := Some (length h2), s_velocities := Some (length h2 + 1),
                              s_timestamps := Some (length h2 + 2)\<rparr>, h2 @ [p, v, t]) = (r, (d', h'))"
proof -
  obtain r1 d1 h1 where p: "run_prepare ff n pbc (d, h) = (r1, (d1, h1))" by (metis prod.collapse)
  show thesis
  proof (cases r1)
    case (Inl e)
    then have "run ff us integrate n dt pbc (d, h) = (Inl e, (d1, h1))"
      using p by (simp add: run_def and_then_def)
    then show ?thesis using assms p Inl prepare_failed by auto
  next
    case (Inr u)
    let ?t = "integrate (ens_positions (obj_state (s_ensemble d1)))
                (ens_velocities (obj_state (s_ensemble d1))) dt n"
    obtain r2 d2 h2 where dr: "drive ?t ff (d1, h1) = (r2, (d2, h2))" by (metis prod.collapse)
    show ?thesis
    proof (cases r2)
      case (Inl e)
      then have "run ff us integrate n dt pbc (d, h) = (Inl e, (d2, h2))"
        using p Inr dr by (simp add: run_def run_integrate_def and_then_def read_attr_def ensemble_def)
      then show ?thesis using assms p Inr dr Inl integrate_failed by auto
    next
      case res: (Inr pvt)
      obtain pp vv tt where pvt: "pvt = (pp, vv, tt)" by (cases pvt)
      have "run ff us integrate n dt pbc (d, h) =
          run_package ff us (d2\<lparr>s_positions := Some (length h2), s_velocities := Some (length h2 + 1),
                              s_timestamps := Some (length h2 + 2)\<rparr>, h2 @ [pp, vv, tt])"
        using p Inr dr res pvt
        by (simp add: run_def run_integrate_def and_then_def read_attr_def ensemble_def
            new_array_def write_attr_def)
      then show ?thesis using assms p Inr dr res pvt integrated by auto
    qed
  qed
qed

lemma run_package_result:
  assumes "run_package ff us (d, h) = (r, (d', h'))"
  shows "(\<exists>ext. h' = h @ ext) \<and>
    (case r of
       Inl e \<Rightarrow> d' = d
     | Inr u \<Rightarrow> (\<exists>tr. d' = d\<lparr>s_trajectory := Some tr\<rparr>
          \<and> t_positions tr = s_positions d \<and> t_velocities tr = s_velocities d
          \<and> t_timestamps tr = s_timestamps d
          \<and> t_energy_potential_coulomb tr = s_energy_potential_coulomb d
          \<and> t_energy_potential_lennard_jones tr = s_energy_potential_lennard_jones d
          \<and> t_energy_potential_bond_vibration tr = s_energy_potential_bond_vibration d
          \<and> t_energy_potential_angle_vibration tr = s_energy_potential_angle_vibration d
          \<and> t_distances_interatomic tr = s_distances_interatomic d
          \<and> t_bond_angles tr = s_bond_angles d))"
  using assms unfolding run_package_def
  by (auto split: prod.splits sum.splits dest: TrajectoryAnalyzer_init_store TrajectoryAnalyzer_init_fields)

lemma prefix_from_nth:
  assumes "length h \<le> length h2" "\<forall>b < length h. h2 ! b = h ! b"
  shows "\<exists>ext. h2 = h @ ext"
proof -
  have "take (length h) h2 = h"
    using assms by (intro nth_equalityI) auto
  then have "h2 = h @ drop (length h) h2" by (metis append_take_drop_id)
  then show ?thesis ..
qed

lemma drive_after_prepare:
  assumes p: "run_prepare ff n pbc (d, h) = (Inr (), (d1, h1))"
    and dr: "drive t ff (d1, h1) = (r, (d2, h2))"
  shows "(\<exists>ext. h2 = h @ ext) \<and> length h2 = length h + 6
     \<and> (\<exists>f c. d2 = d1\<lparr>s_forcefield := f, s_curr_step := c\<rparr>)"
proof -
  from run_prepare_ok [OF p] obtain f z where
    d1: "d1 = d\<lparr>s_forcefield := f,
                   s_energy_potential_coulomb := Some (length h),
                   s_energy_potential_lennard_jones := Some (length h + 1),
                   s_energy_potential_bond_vibration := Some (length h + 2),
                   s_energy_potential_angle_vibration := Some (length h + 3),
                   s_bond_angles := Some (length h + 4),
                   s_distances_interatomic := Some (length h + 5),
                   s_curr_step := Some 0\<rparr>"
    and h1: "h1 = h @ z" "length z = 6" by auto
  from drive_frame [OF dr] have
    fr: "\<exists>f c. d2 = d1\<lparr>s_forcefield := f, s_curr_step := c\<rparr>" "length h2 = length h1"
      "\<forall>b. Some b \<notin> (\<lambda>x. fst x d1) ` set (diagnostics ff) \<longrightarrow> h2 ! b = h1 ! b" by auto
  have "\<forall>b < length h. h2 ! b = h ! b"
  proof (intro allI impI)
    fix b assume b: "b < length h"
    then have "Some b \<notin> (\<lambda>x. fst x d1) ` set (diagnostics ff)"
      by (auto simp: d1 diagnostics_def)
    then have "h2 ! b = h1 ! b" using fr(3) by simp
    then show "h2 ! b = h ! b" using b h1 by (simp add: nth_append)
  qed
  moreover have "length h \<le> length h2" using fr(2) h1 by simp
  ultimately have "\<exists>ext. h2 = h @ ext" by (intro prefix_from_nth) auto
  then show ?thesis using fr h1 by simp
qed

lemma run_outcome:
  assumes "run ff us integrate n dt pbc (d, h) = (r, (d', h'))"
  shows "(\<exists>ext. h' = h @ ext)
    \<and> (case r of Inl e \<Rightarrow> s_trajectory d' = s_trajectory d | Inr u \<Rightarrow> s_trajectory d' \<noteq> None)"
  using assms
proof (cases rule: run_decompose)
  case (prepare_failed e)
  then show ?thesis using keeps_grows_run_prepare [of ff n pbc]
    by (auto simp: keeps_def grows_def)
next
  case (integrate_failed d1 h1 e)
  from keeps_grows_run_prepare [of ff n pbc] integrate_failed(1)
  have "s_trajectory d1 = s_trajectory d" by (auto simp: keeps_def grows_def)
  moreover from drive_after_prepare [OF integrate_failed(1,2)] have
    "(\<exists>ext. h' = h @ ext)" "s_trajectory d' = s_trajectory d1" by auto
  ultimately show ?thesis using integrate_failed(3) by simp
next
  case (integrated d1 h1 p v t d2 h2)
  from keeps_grows_run_prepare [of ff n pbc] integrated(1)
  have t1: "s_trajectory d1 = s_trajectory d" by (auto simp: keeps_def grows_def)
  from drive_after_prepare [OF integrated(1,2)] obtain e2 where
    h2: "h2 = h @ e2" and t2: "s_trajectory d2 = s_trajectory d1" by auto
  from run_package_result [OF integrated(3)] obtain e3 where
    h': "h' = (h2 @ [p, v, t]) @ e3" by blast
  have "\<exists>ext. h' = h @ ext" using h' h2 by simp
  moreover have "case r of Inl e \<Rightarrow> s_trajectory d' = s_trajectory d | Inr u \<Rightarrow> s_trajectory d' \<noteq> None"
    using run_package_result [OF integrated(3)] t1 t2 by (auto split: sum.splits)
  ultimately show ?thesis by simp
qed

text \<open>
  C5 (no trajectory from a failed run). If \<open>run\<close> raises, at any point (allocation, force
  field initialisation, unit fitting, integration, construction of the trajectory), the
  trajectory attribute of the driver is what it was before: the property \<open>trajectory\<close>
  answers as before the run, and on a driver that had none it still raises the not-yet-run
  ValueError.
\<close>

theorem failed_run_produces_no_trajectory:
  assumes "run ff us integrate num_steps dt pbc (d, h) = (Inl e, (d', h'))"
  shows "s_trajectory d' = s_trajectory d \<and> trajectory d' = trajectory d
     \<and> (s_trajectory d = None \<longrightarrow> trajectory d' = Inl (ValueError not_yet_run_message))"
  using run_outcome [OF assms] by (simp add: trajectory_def)

lemmas run_eval = run_def run_prepare_def run_integrate_def run_package_def new_zeros_def np_zeros_def
  call_forcefield_def ensemble_def forcefield_def prog_defs bench_defs

lemmas init_eval = TrajectoryAnalyzer_init_def masses_of_def unit_mass_def unit_velocity_def
  unit_length_def unit_time_def py_times_def py_over_def

theorem failed_run_produces_no_trajectory_witness:
  "trajectory (fst (snd (run (stub_forcefield 2) stub_units overrun_integrate 1 1 False (bench_driver, []))))
     = Inl (ValueError not_yet_run_message)"
proof -
  let ?r = "run (stub_forcefield 2) stub_units overrun_integrate 1 1 False (bench_driver, [])"
  have "fst ?r = Inl IndexError"
    by (simp add: overrun_integrate_def eval_nat_numeral force_eval run_eval)
  then have "?r = (Inl IndexError, (fst (snd ?r), snd (snd ?r)))"
    by (metis prod.collapse)
  from failed_run_produces_no_trajectory [OF this]
  have "s_trajectory bench_driver = None \<longrightarrow>
          trajectory (fst (snd ?r)) = Inl (ValueError not_yet_run_message)" by blast
  moreover have "s_trajectory bench_driver = None" by (simp add: bench_driver_def)
  ultimately show ?thesis by blast
qed

lemma not_yet_run_no_trajectory:
  "not_yet_run ff us s \<Longrightarrow> s_trajectory (fst s) = None"
proof (induction rule: not_yet_run.induct)
  case (constructed f e d h)
  then show ?case by (auto simp: MDSimulation_init_def split: if_splits)
next
  case (failed_run s integrate num_steps dt pbc err s')
  then show ?case using run_outcome [of ff us integrate num_steps dt pbc "fst s" "snd s" "Inl err" "fst s'" "snd s'"]
    by simp
qed

text \<open>
  C4 (not yet run). On a driver on which no run has completed, the property \<open>trajectory\<close>
  raises the ValueError \<^verbatim>\<open>The simulation has not yet been run.\<close>; after a run that
  returns normally, it returns the trajectory of the driver.
\<close>

theorem trajectory_before_and_after_run:
  assumes "not_yet_run ff us (d, h)"
  shows "trajectory d = Inl (ValueError not_yet_run_message)
     \<and> (\<forall>integrate num_steps dt pbc d' h'.
           run ff us integrate num_steps dt pbc (d, h) = (Inr (), (d', h')) \<longrightarrow>
           (\<exists>tr. s_trajectory d' = Some tr \<and> trajectory d' = Inr tr))"
proof -
  have "s_trajectory d = None" using not_yet_run_no_trajectory [OF assms] by simp
  then have "trajectory d = Inl (ValueError not_yet_run_message)" by (simp add: trajectory_def)
  moreover have "\<exists>tr. s_trajectory d' = Some tr \<and> trajectory d' = Inr tr"
    if "run ff us integrate num_steps dt pbc (d, h) = (Inr (), (d', h'))"
    for integrate num_steps dt pbc d' h'
    using run_outcome [OF that] by (auto simp: trajectory_def)
  ultimately show ?thesis by blast
qed

theorem trajectory_before_and_after_run_witness:
  "trajectory bench_driver = Inl (ValueError not_yet_run_message)
   \<and> (\<exists>tr. trajectory (fst (snd (run (stub_forcefield 2) stub_units stub_integrate 1 1 False
                                     (bench_driver, [])))) = Inr tr)"
proof -
  let ?r = "run (stub_forcefield 2) stub_units stub_integrate 1 1 False (bench_driver, [])"
  have "MDSimulation_init forcefield_object ensemble_object = Inr bench_driver"
    by (simp add: MDSimulation_init_def isinstance_def issubclass_of_class_def bench_defs)
  then have n: "not_yet_run (stub_forcefield 2) stub_units (bench_driver, [])"
    by (rule not_yet_run.constructed)
  have "fst ?r = Inr ()"
    by (simp add: stub_integrate_def eval_nat_numeral force_eval run_eval init_eval)
  then have "?r = (Inr (), (fst (snd ?r), snd (snd ?r)))"
    by (metis prod.collapse)
  with trajectory_before_and_after_run [OF n] show ?thesis by blast
qed

subsection \<open>A run that returns\<close>

lemma TrajectoryAnalyzer_init_masses:
  assumes "TrajectoryAnalyzer_init us p v ts an mi cm c lj bv av di ba ul ut uv ue ua h = (Inr tr, h')"
  shows "t_masses tr = length h \<and> length h' = Suc (length h)
    \<and> t_speeds tr = None \<and> t_momenta tr = None \<and> t_energy_kinetic_per_atom tr = None
    \<and> t_temperature tr = None \<and> t_energy_kinetic_total tr = None
    \<and> t_energy_potential_total tr = None \<and> t_energy_total tr = None \<and> t_bond_lengths tr = None"
  using assms unfolding TrajectoryAnalyzer_init_def
  apply (elim and_then_InrE)
  apply (simp only: lift_result_apply succeed_apply prod.inject sum.inject)
  apply (elim conjE)
  apply (drule momentum_step_units_only)
  apply (frule units_only_fields(10))
  apply (frule units_only_fields(12))
  apply (frule units_only_fields(13))
  apply (frule units_only_fields(14))
  apply (frule units_only_fields(15))
  apply (frule units_only_fields(16))
  apply (frule units_only_fields(17))
  apply (frule units_only_fields(18))
  apply (drule units_only_bond_lengths)
  apply clarsimp
  done

lemma drive_results:
  assumes "drive t ff s = (Inr res, s')"
  shows "res \<in> results t"
  using assms
proof (induction t arbitrary: s)
  case (Return p v ts)
  then show ?case by (simp add: succeed_def)
next
  case (Raises e)
  then show ?case by (simp add: raise_def)
next
  case (Calls q k)
  from Calls.prems obtain acc s1 where "drive (k acc) ff s1 = (Inr res, s')"
    by (auto simp: and_then_Inr)
  from Calls.IH [OF _ this] show ?case by auto
qed

lemma run_success:
  assumes run: "run ff us integrate n dt pbc (d, h) = (Inr (), (d', h'))"
  defines "ens \<equiv> obj_state (s_ensemble d)"
  shows "\<exists>tr p v t. s_trajectory d' = Some tr
     \<and> (p, v, t) \<in> results (integrate (ens_positions ens) (ens_velocities ens) dt n)
     \<and> (\<exists>ext. h' = h @ ext) \<and> length h' = length h + 10
     \<and> t_energy_potential_coulomb tr = Some (length h)
     \<and> t_energy_potential_lennard_jones tr = Some (length h + 1)
     \<and> t_energy_potential_bond_vibration tr = Some (length h + 2)
     \<and> t_energy_potential_angle_vibration tr = Some (length h + 3)
     \<and> t_bond_angles tr = Some (length h + 4)
     \<and> t_distances_interatomic tr = Some (length h + 5)
     \<and> t_positions tr = Some (length h + 6)
     \<and> t_velocities tr = Some (length h + 7)
     \<and> t_timestamps tr = Some (length h + 8)
     \<and> t_masses tr = length h + 9
     \<and> t_speeds tr = None \<and> t_momenta tr = None \<and> t_energy_kinetic_per_atom tr = None
     \<and> t_temperature tr = None \<and> t_energy_kinetic_total tr = None
     \<and> t_energy_potential_total tr = None \<and> t_energy_total tr = None \<and> t_bond_lengths tr = None
     \<and> nd_shape (h' ! length h) = [nat (n + 1)]
     \<and> nd_shape (h' ! (length h + 1)) = [nat (n + 1)]
     \<and> nd_shape (h' ! (length h + 2)) = [nat (n + 1)]
     \<and> nd_shape (h' ! (length h + 3)) = [nat (n + 1)]
     \<and> nd_shape (h' ! (length h + 4)) = [nat (n + 1), nat (ens_number_molecules_total ens)]
     \<and> nd_shape (h' ! (length h + 5)) =
          [nat (n + 1), nat (ens_number_atoms_total ens), nat (ens_number_atoms_total ens)]
     \<and> h' ! (length h + 6) = p \<and> h' ! (length h + 7) = v \<and> h' ! (length h + 8) = t"
  using run
proof (cases rule: run_decompose)
  case (prepare_failed e)
  then show ?thesis by simp
next
  case (integrate_failed d1 h1 e)
  then show ?thesis by simp
next
  case (integrated d1 h1 p v t d2 h2)
  note ok = run_prepare_ok [OF integrated(1)]
  from ok obtain f where d1: "d1 = d\<lparr>s_forcefield := f,
                   s_energy_potential_coulomb := Some (length h),
                   s_energy_potential_lennard_jones := Some (length h + 1),
                   s_energy_potential_bond_vibration := Some (length h + 2),
                   s_energy_potential_angle_vibration := Some (length h + 3),
                   s_bond_angles := Some (length h + 4),
                   s_distances_interatomic := Some (length h + 5),
                   s_curr_step := Some 0\<rparr>" by blast
  from ok have sh1: "nd_shape (h1 ! length h) = [nat (n + 1)]"
    "nd_shape (h1 ! (length h + 1)) = [nat (n + 1)]"
    "nd_shape (h1 ! (length h + 2)) = [nat (n + 1)]"
    "nd_shape (h1 ! (length h + 3)) = [nat (n + 1)]"
    "nd_shape (h1 ! (length h + 4)) = [nat (n + 1), nat (ens_number_molecules_total ens)]"
    "nd_shape (h1 ! (length h + 5)) =
          [nat (n + 1), nat (ens_number_atoms_total ens), nat (ens_number_atoms_total ens)]"
    by (simp_all add: ens_def nth_append)
  have ens1: "obj_state (s_ensemble d1) = ens" by (simp add: d1 ens_def)
  from drive_after_prepare [OF integrated(1,2)] obtain e2 f2 c2 where
    h2: "h2 = h @ e2" "length h2 = length h + 6"
    and d2: "d2 = d1\<lparr>s_forcefield := f2, s_curr_step := c2\<rparr>" by auto
  have rec: "recorded ff h1 (ff_states (integrate (ens_positions ens) (ens_velocities ens) dt n) ff
                (obj_state (s_forcefield d1))) (d2, h2)"
    using drive_recorded [OF run_prepare_recorded [OF integrated(1)] integrated(2)]
    by (simp add: ens1)
  have keep: "nd_shape (h2 ! a) = nd_shape (h1 ! a)"
    if "x \<in> set (diagnostics ff)" "fst x d2 = Some a" for x a
    using rec that by (fastforce simp: recorded_def slot_filled_def)
  have sh2: "nd_shape (h2 ! length h) = nd_shape (h1 ! length h)"
    "nd_shape (h2 ! (length h + 1)) = nd_shape (h1 ! (length h + 1))"
    "nd_shape (h2 ! (length h + 2)) = nd_shape (h1 ! (length h + 2))"
    "nd_shape (h2 ! (length h + 3)) = nd_shape (h1 ! (length h + 3))"
    "nd_shape (h2 ! (length h + 4)) = nd_shape (h1 ! (length h + 4))"
    "nd_shape (h2 ! (length h + 5)) = nd_shape (h1 ! (length h + 5))"
    by (rule keep [of "diagnostics ff ! 0"], simp add: diagnostics_def, simp add: diagnostics_def d2 d1)
       (rule keep [of "diagnostics ff ! 1"], simp add: diagnostics_def, simp add: diagnostics_def d2 d1,
        rule keep [of "diagnostics ff ! 2"], simp add: diagnostics_def, simp add: diagnostics_def d2 d1,
        rule keep [of "diagnostics ff ! 3"], simp add: diagnostics_def, simp add: diagnostics_def d2 d1,
        rule keep [of "diagnostics ff ! 4"], simp add: diagnostics_def, simp add: diagnostics_def d2 d1,
        rule keep [of "diagnostics ff ! 5"], simp add: diagnostics_def, simp add: diagnostics_def d2 d1)
  define d3 where "d3 = d2\<lparr>s_positions := Some (length h2), s_velocities := Some (length h2 + 1),
                              s_timestamps := Some (length h2 + 2)\<rparr>"
  have pk: "run_package ff us (d3, h2 @ [p, v, t]) = (Inr (), (d', h'))"
    using integrated(3) by (simp add: d3_def)
  obtain tr where tr: "TrajectoryAnalyzer_init us
            (s_positions d3) (s_velocities d3) (s_timestamps d3)
            (ens_atomic_numbers (obj_state (ensemble d3)))
            (ens_molecule_ids (obj_state (ensemble d3)))
            (ens_connectivity_matrix (obj_state (ensemble d3)))
            (s_energy_potential_coulomb d3)
            (s_energy_potential_lennard_jones d3)
            (s_energy_potential_bond_vibration d3)
            (s_energy_potential_angle_vibration d3)
            (s_distances_interatomic d3)
            (s_bond_angles d3)
            (ens_unit_positions (obj_state (ensemble d3)))
            (ens_unit_time (obj_state (ensemble d3)))
            (ens_unit_velocities (obj_state (ensemble d3)))
            (ff_unit_energy ff (obj_state (forcefield d3)))
            (ff_unit_angle ff (obj_state (forcefield d3)))
            (h2 @ [p, v, t]) = (Inr tr, h')" and d': "d' = d3\<lparr>s_trajectory := Some tr\<rparr>"
    using pk unfolding run_package_def by (auto split: prod.splits sum.splits)
  note flds = TrajectoryAnalyzer_init_fields [OF tr] and ms = TrajectoryAnalyzer_init_masses [OF tr]
  from TrajectoryAnalyzer_init_store [OF tr] obtain e3 where h': "h' = (h2 @ [p, v, t]) @ e3" by blast
  have len: "length h' = length h + 10"
    using ms h2(2) by simp
  have low: "h' ! a = h2 ! a" if "a < length h2" for a
    using that h' by (simp add: nth_append)
  have pvt: "h' ! (length h + 6) = p" "h' ! (length h + 7) = v" "h' ! (length h + 8) = t"
    using h' h2(2) by (simp_all add: nth_append)
  have res: "(p, v, t) \<in> results (integrate (ens_positions ens) (ens_velocities ens) dt n)"
    using drive_results [OF integrated(2)] by (simp add: ens1)
  have ext: "\<exists>ext. h' = h @ ext" using h' h2(1) by simp
  have tr': "s_trajectory d' = Some tr" by (simp add: d')
  have f3: "s_energy_potential_coulomb d3 = Some (length h)"
    "s_energy_potential_lennard_jones d3 = Some (length h + 1)"
    "s_energy_potential_bond_vibration d3 = Some (length h + 2)"
    "s_energy_potential_angle_vibration d3 = Some (length h + 3)"
    "s_bond_angles d3 = Some (length h + 4)"
    "s_distances_interatomic d3 = Some (length h + 5)"
    "s_positions d3 = Some (length h + 6)"
    "s_velocities d3 = Some (length h + 7)"
    "s_timestamps d3 = Some (length h + 8)"
    by (simp_all add: d3_def d2 d1 h2(2))
  have shapes: "nd_shape (h' ! length h) = [nat (n + 1)]"
     "nd_shape (h' ! (length h + 1)) = [nat (n + 1)]"
     "nd_shape (h' ! (length h + 2)) = [nat (n + 1)]"
     "nd_shape (h' ! (length h + 3)) = [nat (n + 1)]"
     "nd_shape (h' ! (length h + 4)) = [nat (n + 1), nat (ens_number_molecules_total ens)]"
     "nd_shape (h' ! (length h + 5)) =
          [nat (n + 1), nat (ens_number_atoms_total ens), nat (ens_number_atoms_total ens)]"
    using sh1 sh2 h2(2) by (simp_all add: low)
  have m: "t_masses tr = length h + 9" using ms h2(2) by simp
  show ?thesis
    apply (rule exI [of _ tr], rule exI [of _ p], rule exI [of _ v], rule exI [of _ t])
    using tr' res ext len flds f3 m ms shapes pvt
    apply simp
    done
qed

text \<open>
  C3 (sizes). After a run that returns normally, the four energy buffers of the
  trajectory have shape \<open>(num_steps + 1)\<close>, the bond-angle buffer
  \<open>(num_steps + 1, number_molecules_total)\<close>, the distance buffer
  \<open>(num_steps + 1, number_atoms_total, number_atoms_total)\<close>; and, when whatever the
  integrator returns has \<open>num_steps + 1\<close> frames, so have the position, velocity and time
  series of the trajectory. (A run with \<open>num_steps < -1\<close> does not return normally.)
\<close>

theorem run_buffer_and_series_sizes:
  assumes "run ff us integrate num_steps dt pbc (d, h) = (Inr (), (d', h'))"
    and "integrator_contract integrate"
  shows "\<exists>tr. s_trajectory d' = Some tr
     \<and> shape_at h' (t_energy_potential_coulomb tr) = Some [nat (num_steps + 1)]
     \<and> shape_at h' (t_energy_potential_lennard_jones tr) = Some [nat (num_steps + 1)]
     \<and> shape_at h' (t_energy_potential_bond_vibration tr) = Some [nat (num_steps + 1)]
     \<and> shape_at h' (t_energy_potential_angle_vibration tr) = Some [nat (num_steps + 1)]
     \<and> shape_at h' (t_bond_angles tr) =
          Some [nat (num_steps + 1), nat (ens_number_molecules_total (obj_state (s_ensemble d)))]
     \<and> shape_at h' (t_distances_interatomic tr) =
          Some [nat (num_steps + 1), nat (ens_number_atoms_total (obj_state (s_ensemble d))),
                nat (ens_number_atoms_total (obj_state (s_ensemble d)))]
     \<and> len_at h' (t_positions tr) = Some (nat (num_steps + 1))
     \<and> len_at h' (t_velocities tr) = Some (nat (num_steps + 1))
     \<and> len_at h' (t_timestamps tr) = Some (nat (num_steps + 1))"
proof -
  from run_success [OF assms(1)] obtain tr p v t where
    *: "s_trajectory d' = Some tr"
    "(p, v, t) \<in> results (integrate (ens_positions (obj_state (s_ensemble d)))
                     (ens_velocities (obj_state (s_ensemble d))) dt num_steps)"
    "t_energy_potential_coulomb tr = Some (length h)"
    "t_energy_potential_lennard_jones tr = Some (length h + 1)"
    "t_energy_potential_bond_vibration tr = Some (length h + 2)"
    "t_energy_potential_angle_vibration tr = Some (length h + 3)"
    "t_bond_angles tr = Some (length h + 4)"
    "t_distances_interatomic tr = Some (length h + 5)"
    "t_positions tr = Some (length h + 6)"
    "t_velocities tr = Some (length h + 7)"
    "t_timestamps tr = Some (length h + 8)"
    "nd_shape (h' ! length h) = [nat (num_steps + 1)]"
    "nd_shape (h' ! (length h + 1)) = [nat (num_steps + 1)]"
    "nd_shape (h' ! (length h + 2)) = [nat (num_steps + 1)]"
    "nd_shape (h' ! (length h + 3)) = [nat (num_steps + 1)]"
    "nd_shape (h' ! (length h + 4)) =
       [nat (num_steps + 1), nat (ens_number_molecules_total (obj_state (s_ensemble d)))]"
    "nd_shape (h' ! (length h + 5)) =
       [nat (num_steps + 1), nat (ens_number_atoms_total (obj_state (s_ensemble d))),
        nat (ens_number_atoms_total (obj_state (s_ensemble d)))]"
    "h' ! (length h + 6) = p" "h' ! (length h + 7) = v" "h' ! (length h + 8) = t"
    by blast
  from assms(2) *(2) have "np_len p = nat (num_steps + 1)" "np_len v = nat (num_steps + 1)"
    "np_len t = nat (num_steps + 1)"
    unfolding integrator_contract_def by blast+
  then show ?thesis using * by (simp add: shape_at_def len_at_def)
qed

lemma results_calls_then: "results (calls_then m q r) = results r"
  by (induction m) simp_all

lemma stub_integrate_contract: "integrator_contract stub_integrate"
  by (simp add: integrator_contract_def stub_integrate_def results_calls_then frames_def np_len_def)

theorem run_buffer_and_series_sizes_witness:
  "\<exists>tr. s_trajectory (fst (snd (run (stub_forcefield 2) stub_units stub_integrate 1 1 False
                                (bench_driver, [])))) = Some tr
     \<and> shape_at (snd (snd (run (stub_forcefield 2) stub_units stub_integrate 1 1 False
                                (bench_driver, [])))) (t_distances_interatomic tr) = Some [2, 2, 2]
     \<and> len_at (snd (snd (run (stub_forcefield 2) stub_units stub_integrate 1 1 False
                                (bench_driver, [])))) (t_positions tr) = Some 2"
proof -
  let ?r = "run (stub_forcefield 2) stub_units stub_integrate 1 1 False (bench_driver, [])"
  have "fst ?r = Inr ()"
    by (simp add: stub_integrate_def eval_nat_numeral force_eval run_eval init_eval)
  then have r: "?r = (Inr (), (fst (snd ?r), snd (snd ?r)))"
    by (metis prod.collapse)
  have e: "ens_number_atoms_total (obj_state (s_ensemble bench_driver)) = 2"
    by (simp add: bench_defs)
  from run_buffer_and_series_sizes [OF r stub_integrate_contract] e
  show ?thesis by auto
qed




section \<open>Derived quantities of a trajectory\<close>

subsection \<open>Caches\<close>

lemma kept_outside_refl: "kept_outside X s s"
  by (simp add: kept_outside_def)

lemma kept_outside_trans: "kept_outside X a b \<Longrightarrow> kept_outside X b c \<Longrightarrow> kept_outside X a c"
  by (auto simp: kept_outside_def)

lemma kept_outside_mono: "X \<subseteq> Y \<Longrightarrow> kept_outside X a b \<Longrightarrow> kept_outside Y a b"
  by (auto simp: kept_outside_def)

lemma keeps_kept_and_then:
  "keeps (kept_outside X) m \<Longrightarrow> (\<And>x. keeps (kept_outside X) (f x)) \<Longrightarrow> keeps (kept_outside X) (and_then m f)"
  by (rule keeps_and_then [OF kept_outside_trans])

lemma keeps_kept_weaken:
  "keeps (kept_outside {}) m \<Longrightarrow> keeps (kept_outside X) m"
  unfolding keeps_def using kept_outside_mono [of "{}" X] by blast

lemma keeps_kept_read_attr: "keeps (kept_outside X) (read_attr f)"
  by (simp add: keeps_def read_attr_def kept_outside_refl)

lemma keeps_kept_array_of: "keeps (kept_outside X) (array_of r)"
  by (auto simp: keeps_def array_of_def kept_outside_refl split: option.splits)

lemma keeps_kept_lift_result: "keeps (kept_outside X) (lift_result r)"
  by (simp add: keeps_def lift_result_def kept_outside_refl)

lemma keeps_kept_new_array: "keeps (kept_outside X) (new_array a)"
  by (auto simp: keeps_def new_array_def kept_outside_def)

lemma keeps_kept_raise: "keeps (kept_outside X) (raise e)"
  by (simp add: keeps_def raise_def kept_outside_refl)

lemma keeps_kept_linalg_norm_axis2: "keeps (kept_outside X) (linalg_norm_axis2 x)"
  unfolding linalg_norm_axis2_def
  by (cases x) (simp_all add: keeps_kept_raise keeps_kept_and_then keeps_kept_array_of
      keeps_kept_lift_result)

lemma keeps_kept_accessors:
  "keeps (kept_outside X) velocities" "keeps (kept_outside X) masses"
  "keeps (kept_outside X) energy_potential_coulomb"
  "keeps (kept_outside X) energy_potential_lennard_jones"
  "keeps (kept_outside X) energy_potential_bond_vibration"
  "keeps (kept_outside X) energy_potential_angle_vibration"
  by (simp_all add: velocities_def masses_def energy_potential_coulomb_def
      energy_potential_lennard_jones_def energy_potential_bond_vibration_def
      energy_potential_angle_vibration_def keeps_kept_read_attr)

lemma keeps_kept_write_cache:
  assumes "\<And>t q. q \<noteq> x \<Longrightarrow> cache_of q (upd t) = cache_of q t"
  shows "keeps (kept_outside {x}) (write_attr upd)"
  using assms by (auto simp: keeps_def write_attr_def kept_outside_def)

lemma keeps_kept_lazy_property:
  assumes "keeps (kept_outside {x}) calculate"
  shows "keeps (kept_outside {}) (lazy_property (cache_of x) calculate)"
  unfolding keeps_def
proof (intro allI impI)
  fix s :: "'a TrajectoryAnalyzer \<times> heap" and r s'
  assume run: "lazy_property (cache_of x) calculate s = (r, s')"
  obtain t h where s: "s = (t, h)" by (cases s)
  show "kept_outside {} s s'"
  proof (cases "cache_of x t")
    case None
    obtain r1 s1 where c: "calculate (t, h) = (r1, s1)" by (cases "calculate (t, h)")
    then have k: "kept_outside {x} (t, h) s1" using assms unfolding keeps_def by blast
    have "s' = s1" using run s None c
      by (auto simp: lazy_property_def and_then_def read_attr_def split: sum.splits prod.splits)
    moreover have "cache_of q t = Some a \<Longrightarrow> q \<noteq> x" for q a using None by auto
    ultimately show ?thesis using k s unfolding kept_outside_def by auto
  next
    case (Some a)
    then have "s' = s" using run s
      by (auto simp: lazy_property_def and_then_def read_attr_def split: sum.splits prod.splits)
    then show ?thesis by (simp add: kept_outside_refl)
  qed
qed

lemma keeps_kept_speeds: "keeps (kept_outside X) speeds"
  unfolding speeds_def
  apply (rule keeps_kept_weaken)
  apply (rule keeps_kept_lazy_property [of Speed, simplified])
  unfolding calculate_speeds_def
  apply (intro keeps_kept_and_then keeps_kept_accessors keeps_kept_linalg_norm_axis2
      keeps_kept_new_array keeps_kept_write_cache)
  subgoal for _ _ _ t q by (cases q) simp_all
  done

lemma units_only_cache_of: "units_only t t' \<Longrightarrow> cache_of q t' = cache_of q t"
  by (cases q) (auto simp: units_only_def)

lemma keeps_kept_on_object:
  assumes "keeps units_only m"
  shows "keeps (kept_outside X) (on_object m)"
  unfolding keeps_def
proof (intro allI impI)
  fix s :: "'a TrajectoryAnalyzer \<times> heap" and r :: "error + 'b" and s'
  assume run: "on_object m s = (r, s')"
  obtain t h where s: "s = (t, h)" by (cases s)
  obtain r1 t1 where m: "m t = (r1, t1)" by (cases "m t")
  then have "units_only t t1" using assms unfolding keeps_def by blast
  moreover have "s' = (t1, h)" using run s m by (simp add: on_object_def)
  ultimately show "kept_outside X s s'"
    using s by (simp add: kept_outside_def units_only_cache_of)
qed

lemma keeps_units_unit_temperature: "keeps units_only unit_temperature"
  by (simp add: keeps_def unit_temperature_def units_only_refl)

lemmas keeps_kept_intros = keeps_kept_and_then keeps_kept_accessors keeps_kept_array_of
  keeps_kept_lift_result keeps_kept_new_array keeps_kept_write_cache keeps_kept_speeds

lemma keeps_kept_momenta: "keeps (kept_outside X) momenta"
  unfolding momenta_def
  apply (rule keeps_kept_weaken)
  apply (rule keeps_kept_lazy_property [of Momentum, simplified])
  unfolding calculate_momenta_def
  apply (intro keeps_kept_intros)
  subgoal for _ _ _ _ _ _ t q by (cases q) simp_all
  done

lemma keeps_kept_energy_kinetic_per_atom: "keeps (kept_outside X) energy_kinetic_per_atom"
  unfolding energy_kinetic_per_atom_def
  apply (rule keeps_kept_weaken)
  apply (rule keeps_kept_lazy_property [of KineticEnergyPerAtom, simplified])
  unfolding calculate_energy_kinetic_per_atom_def
  apply (intro keeps_kept_intros keeps_kept_momenta)
  subgoal for _ _ _ _ _ _ t q by (cases q) simp_all
  done

lemma keeps_kept_energy_kinetic_total: "keeps (kept_outside X) energy_kinetic_total"
  unfolding energy_kinetic_total_def
  apply (rule keeps_kept_weaken)
  apply (rule keeps_kept_lazy_property [of KineticEnergyTotal, simplified])
  unfolding calculate_energy_kinetic_total_def
  apply (intro keeps_kept_intros keeps_kept_energy_kinetic_per_atom)
  subgoal for _ _ _ _ t q by (cases q) simp_all
  done

lemma keeps_kept_energy_potential_total: "keeps (kept_outside X) energy_potential_total"
  unfolding energy_potential_total_def
  apply (rule keeps_kept_weaken)
  apply (rule keeps_kept_lazy_property [of PotentialEnergyTotal, simplified])
  unfolding calculate_energy_potential_total_def
  apply (intro keeps_kept_intros)
  subgoal for _ _ _ _ _ _ _ _ _ _ _ _ t q by (cases q) simp_all
  done

lemma keeps_kept_energy_total: "keeps (kept_outside X) energy_total"
  unfolding energy_total_def
  apply (rule keeps_kept_weaken)
  apply (rule keeps_kept_lazy_property [of TotalEnergy, simplified])
  unfolding calculate_energy_total_def
  apply (intro keeps_kept_intros keeps_kept_energy_potential_total keeps_kept_energy_kinetic_total)
  subgoal for _ _ _ _ _ _ t q by (cases q) simp_all
  done

lemma keeps_kept_temperature: "keeps (kept_outside X) (temperature us)"
  unfolding temperature_def
  apply (rule keeps_kept_weaken)
  apply (rule keeps_kept_lazy_property [of Temperature, simplified])
  unfolding calculate_temperature_def
  apply (intro keeps_kept_intros keeps_kept_energy_kinetic_per_atom keeps_kept_on_object
      keeps_units_unit_energy keeps_units_unit_temperature)
  subgoal for _ _ _ _ _ _ _ _ t q by (cases q) simp_all
  done

lemma keeps_kept_derived: "keeps (kept_outside {}) (derived us q)"
  by (cases q) (simp_all add: keeps_kept_speeds keeps_kept_momenta keeps_kept_energy_kinetic_per_atom
      keeps_kept_energy_kinetic_total keeps_kept_energy_potential_total keeps_kept_energy_total
      keeps_kept_temperature)

lemma reads_kept:
  assumes "reads us s s'"
  shows "kept_outside {} s s'"
  using assms
proof (induction rule: reads.induct)
  case (no_read s)
  then show ?case by (rule kept_outside_refl)
next
  case (read_quantity s s1 q r s2)
  have "kept_outside {} s1 s2"
    using keeps_kept_derived [of us q] read_quantity.hyps(2) unfolding keeps_def by blast
  with read_quantity.IH show ?case by (rule kept_outside_trans)
next
  case (read_unit s t1 h1 t2)
  have "kept_outside {} (t1, h1) (t2, h1)"
    using read_unit.hyps(2) by (simp add: kept_outside_def units_only_cache_of)
  with read_unit.IH show ?case by (rule kept_outside_trans)
qed

lemma cache_written:
  assumes "new_array x s = (Inr a, s1)" "write_attr upd s1 = (Inr u, (t1, h1))"
  shows "a < length h1 \<and> t1 = upd (fst s1) \<and> h1 = snd s @ [x] \<and> a = length (snd s)"
  using assms by (auto simp: new_array_def write_attr_def split: prod.splits)

lemma calculate_caches:
  "calculate_speeds s = (Inr u, (t1, h1)) \<Longrightarrow> \<exists>a. t_speeds t1 = Some a \<and> a < length h1"
  "calculate_momenta s = (Inr u, (t1, h1)) \<Longrightarrow> \<exists>a. t_momenta t1 = Some a \<and> a < length h1"
  "calculate_energy_kinetic_per_atom s = (Inr u, (t1, h1)) \<Longrightarrow>
     \<exists>a. t_energy_kinetic_per_atom t1 = Some a \<and> a < length h1"
  "calculate_energy_kinetic_total s = (Inr u, (t1, h1)) \<Longrightarrow>
     \<exists>a. t_energy_kinetic_total t1 = Some a \<and> a < length h1"
  "calculate_energy_potential_total s = (Inr u, (t1, h1)) \<Longrightarrow>
     \<exists>a. t_energy_potential_total t1 = Some a \<and> a < length h1"
  "calculate_energy_total s = (Inr u, (t1, h1)) \<Longrightarrow> \<exists>a. t_energy_total t1 = Some a \<and> a < length h1"
  "calculate_temperature us s = (Inr u, (t1, h1)) \<Longrightarrow> \<exists>a. t_temperature t1 = Some a \<and> a < length h1"
  unfolding calculate_speeds_def calculate_momenta_def calculate_energy_kinetic_per_atom_def
    calculate_energy_kinetic_total_def calculate_energy_potential_total_def
    calculate_energy_total_def calculate_temperature_def
  by (elim and_then_InrE, drule (1) cache_written, simp)+

lemma lazy_property_result:
  assumes "lazy_property cache calculate (t, h) = (Inr r, (t1, h1))"
  shows "r = cache t1 \<and> (case cache t of
            Some a \<Rightarrow> t1 = t \<and> h1 = h
          | None \<Rightarrow> calculate (t, h) = (Inr (), (t1, h1)))"
  using assms
  by (auto simp: lazy_property_def and_then_def read_attr_def split: sum.splits prod.splits if_splits)

lemma lazy_property_cached:
  "cache t = Some a \<Longrightarrow> lazy_property cache calculate (t, h) = (Inr (Some a), (t, h))"
  by (simp add: lazy_property_def and_then_def read_attr_def)

lemma derived_as_lazy_property:
  "derived us q = lazy_property (cache_of q)
     (case q of Speed \<Rightarrow> calculate_speeds | Momentum \<Rightarrow> calculate_momenta
      | KineticEnergyPerAtom \<Rightarrow> calculate_energy_kinetic_per_atom
      | KineticEnergyTotal \<Rightarrow> calculate_energy_kinetic_total
      | PotentialEnergyTotal \<Rightarrow> calculate_energy_potential_total
      | TotalEnergy \<Rightarrow> calculate_energy_total
      | Temperature \<Rightarrow> calculate_temperature us)"
  by (cases q) (simp_all add: speeds_def momenta_def energy_kinetic_per_atom_def
      energy_kinetic_total_def energy_potential_total_def energy_total_def temperature_def)

lemma derived_result:
  assumes "derived us q (t, h) = (Inr r, (t1, h1))"
    and "\<forall>a. cache_of q t = Some a \<longrightarrow> a < length h"
  shows "\<exists>a. r = Some a \<and> cache_of q t1 = Some a \<and> a < length h1"
proof (cases "cache_of q t")
  case None
  with lazy_property_result [OF assms(1) [unfolded derived_as_lazy_property]]
  show ?thesis by (cases q) (auto dest: calculate_caches)
next
  case (Some a)
  with lazy_property_result [OF assms(1) [unfolded derived_as_lazy_property]] assms(2)
  show ?thesis by auto
qed

text \<open>
  C7 (cache). Once a derived quantity (speed, momentum, kinetic energy per atom, total
  kinetic energy, total potential energy, total energy, temperature) has been read from
  a trajectory, every later read of it, whatever was read in between, returns the same
  array object without computing anything: the trajectory and the store are as before
  that read, and the array is unchanged since the first read.
\<close>

theorem derived_quantity_computed_once:
  assumes "derived us q (t, h) = (Inr r, (t1, h1))"
    and "\<forall>a. cache_of q t = Some a \<longrightarrow> a < length h"
    and "reads us (t1, h1) (t2, h2)"
  shows "\<exists>a. r = Some a \<and> a < length h1
           \<and> derived us q (t2, h2) = (Inr (Some a), (t2, h2)) \<and> h2 ! a = h1 ! a"
proof -
  from derived_result [OF assms(1,2)] obtain a where
    a: "r = Some a" "cache_of q t1 = Some a" "a < length h1" by blast
  from reads_kept [OF assms(3)] obtain ext where
    k: "h2 = h1 @ ext" "cache_of q t2 = Some a"
    using a(2) by (auto simp: kept_outside_def)
  have "derived us q (t2, h2) = (Inr (Some a), (t2, h2))"
    unfolding derived_as_lazy_property using k(2) by (rule lazy_property_cached)
  moreover have "h2 ! a = h1 ! a" using k(1) a(3) by (simp add: nth_append)
  ultimately show ?thesis using a by blast
qed

subsection \<open>Temperature\<close>





subsection \<open>The bench trajectory\<close>

lemmas np_eval = linalg_norm_axis2_def np_reduce_def reduce_lines_def np_binop_def broadcast_shapes_def pad_shape_def
  np_scale_def np_divide_scalar_def line_norm_def line_mean_def

lemmas derived_eval = lazy_property_def speeds_def calculate_speeds_def momenta_def
  calculate_momenta_def energy_kinetic_per_atom_def calculate_energy_kinetic_per_atom_def
  energy_kinetic_total_def calculate_energy_kinetic_total_def energy_potential_total_def
  calculate_energy_potential_total_def energy_total_def calculate_energy_total_def
  temperature_def calculate_temperature_def velocities_def masses_def
  energy_potential_coulomb_def energy_potential_lennard_jones_def
  energy_potential_bond_vibration_def energy_potential_angle_vibration_def
  unit_energy_def unit_temperature_def boltzmann_value_def py_over_def

lemmas bench_trajectory_defs = bench_trajectory_def bench_store_def bench_arrays_def stub_units_def


theorem derived_quantity_computed_once_witness:
  "\<exists>a. fst (derived stub_units TotalEnergy (bench_trajectory, bench_store)) = Inr (Some a)
      \<and> derived stub_units TotalEnergy
           (snd (derived stub_units Speed
                   (snd (derived stub_units TotalEnergy (bench_trajectory, bench_store)))))
         = (Inr (Some a),
            snd (derived stub_units Speed
                   (snd (derived stub_units TotalEnergy (bench_trajectory, bench_store)))))"
proof -
  let ?r = "derived stub_units TotalEnergy (bench_trajectory, bench_store)"
  let ?r2 = "derived stub_units Speed (snd ?r)"
  obtain r where "fst ?r = Inr r"
    by (simp add: derived_eval np_eval prog_defs bench_trajectory_defs upt_rec)
  then have r: "?r = (Inr r, (fst (snd ?r), snd (snd ?r)))"
    by (metis prod.collapse)
  have c: "\<forall>a. cache_of TotalEnergy bench_trajectory = Some a \<longrightarrow> a < length bench_store"
    by (simp add: bench_trajectory_def)
  have "reads stub_units (snd ?r) (snd ?r)" by (rule reads.no_read)
  moreover have "derived stub_units Speed (snd ?r) = (fst ?r2, snd ?r2)" by simp
  ultimately have "reads stub_units (snd ?r) (snd ?r2)" by (rule reads.read_quantity)
  then have rd: "reads stub_units (fst (snd ?r), snd (snd ?r)) (fst (snd ?r2), snd (snd ?r2))"
    by simp
  from derived_quantity_computed_once [OF r c rd] r show ?thesis
    by (metis fst_conv prod.collapse)
qed

section \<open>Unit properties of a trajectory\<close>

lemma unit_length_frame: "unit_length us t = (r, t') \<Longrightarrow> \<exists>x. t' = t\<lparr>t_unit_length := x\<rparr>"
  unfolding unit_length_def
  by (auto split: pyunit.splits sum.splits intro: exI [of _ "t_unit_length t"])

lemma unit_time_frame: "unit_time us t = (r, t') \<Longrightarrow> \<exists>x. t' = t\<lparr>t_unit_time := x\<rparr>"
  unfolding unit_time_def
  by (auto split: pyunit.splits sum.splits intro: exI [of _ "t_unit_time t"])

lemma unit_mass_frame: "unit_mass us t = (r, t') \<Longrightarrow> \<exists>x. t' = t\<lparr>t_unit_mass := x\<rparr>"
  unfolding unit_mass_def
  by (auto split: pyunit.splits sum.splits intro: exI [of _ "t_unit_mass t"])

lemma unit_mass_value:
  "unit_mass us t = (Inr m, t') \<Longrightarrow> t_unit_mass t' = m"
  unfolding unit_mass_def by (auto split: pyunit.splits sum.splits)

lemma unit_velocity_stored:
  "t_unit_velocity t \<noteq> PyNone \<Longrightarrow> unit_velocity us t = (Inr (t_unit_velocity t), t)"
  by (cases "t_unit_velocity t") (simp_all add: unit_velocity_def)

lemma unit_momentum_stored:
  "t_unit_momentum t \<noteq> PyNone \<Longrightarrow> unit_momentum us t = (Inr (t_unit_momentum t), t)"
  by (cases "t_unit_momentum t") (simp_all add: unit_momentum_def)

lemma unit_energy_stored:
  "t_unit_energy t \<noteq> PyNone \<Longrightarrow> unit_energy us t = (Inr (t_unit_energy t), t)"
  by (cases "t_unit_energy t") (simp_all add: unit_energy_def)

lemma py_over_unit: "py_over us a b = Inr u \<Longrightarrow> \<exists>x y. a = PyUnit x \<and> b = PyUnit y \<and> u = PyUnit (unit_over us x y)"
  by (auto simp: py_over_def split: pyunit.splits)

lemma py_times_unit: "py_times us a b = Inr u \<Longrightarrow> \<exists>x y. a = PyUnit x \<and> b = PyUnit y \<and> u = PyUnit (unit_times us x y)"
  by (auto simp: py_times_def split: pyunit.splits)

lemma py_power_unit: "py_power us a n = Inr u \<Longrightarrow> \<exists>x. a = PyUnit x \<and> u = PyUnit (unit_power us x n)"
  by (auto simp: py_power_def split: pyunit.splits)

lemma unit_velocity_derived:
  assumes "t_unit_velocity t = PyNone" "unit_velocity us t = (Inr u, t')"
  shows "\<exists>l tm. fst (unit_length us t) = Inr (PyUnit l)
            \<and> fst (unit_time us (snd (unit_length us t))) = Inr (PyUnit tm)
            \<and> u = PyUnit (unit_over us l tm) \<and> t_unit_velocity t' = u
            \<and> t_unit_mass t' = t_unit_mass t \<and> t_unit_energy t' = t_unit_energy t
            \<and> t_unit_momentum t' = t_unit_momentum t"
proof -
  from assms obtain l t1 tm t2 where
    1: "unit_length us t = (Inr l, t1)" and 2: "unit_time us t1 = (Inr tm, t2)"
    and 3: "py_over us l tm = Inr u" and 4: "t' = t2\<lparr>t_unit_velocity := u\<rparr>"
    unfolding unit_velocity_def
    by (auto simp: lift_result_apply elim!: and_then_InrE)
  from unit_length_frame [OF 1] unit_time_frame [OF 2] 4
  have "t_unit_mass t' = t_unit_mass t \<and> t_unit_energy t' = t_unit_energy t
      \<and> t_unit_momentum t' = t_unit_momentum t" by auto
  then show ?thesis using 1 2 4 py_over_unit [OF 3] by auto
qed

lemma unit_velocity_value:
  assumes "unit_velocity us t = (Inr u, t')"
  shows "t_unit_velocity t' = u \<and> t_unit_mass t' = t_unit_mass t \<and> t_unit_energy t' = t_unit_energy t
     \<and> t_unit_momentum t' = t_unit_momentum t \<and> (t_unit_velocity t \<noteq> PyNone \<longrightarrow> u = t_unit_velocity t)"
proof (cases "t_unit_velocity t = PyNone")
  case True
  from unit_velocity_derived [OF True assms] show ?thesis using True by auto
next
  case False
  then show ?thesis using assms unit_velocity_stored [OF False, of us] by auto
qed

lemma unit_momentum_derived:
  assumes "t_unit_momentum t = PyNone" "unit_momentum us t = (Inr u, t')"
  shows "\<exists>m v. fst (unit_mass us t) = Inr (PyUnit m)
            \<and> fst (unit_velocity us (snd (unit_mass us t))) = Inr (PyUnit v)
            \<and> u = PyUnit (unit_times us m v) \<and> t_unit_momentum t' = u"
proof -
  from assms obtain m t1 v t2 where
    1: "unit_mass us t = (Inr m, t1)" and 2: "unit_velocity us t1 = (Inr v, t2)"
    and 3: "py_times us m v = Inr u" and 4: "t' = t2\<lparr>t_unit_momentum := u\<rparr>"
    unfolding unit_momentum_def
    by (auto simp: lift_result_apply elim!: and_then_InrE)
  then show ?thesis using py_times_unit [OF 3] by auto
qed

lemma unit_energy_derived:
  assumes "t_unit_energy t = PyNone" "unit_energy us t = (Inr u, t')"
  shows "\<exists>m l tm. fst (unit_mass us t) = Inr (PyUnit m)
            \<and> fst (unit_length us (snd (unit_mass us t))) = Inr (PyUnit l)
            \<and> fst (unit_time us (snd (unit_length us (snd (unit_mass us t))))) = Inr (PyUnit tm)
            \<and> u = PyUnit (unit_over us (unit_times us m (unit_power us l 2)) (unit_power us tm 2))
            \<and> t_unit_energy t' = u"
proof -
  from assms obtain m t1 l t2 l2 ml2 tm t3 tm2 where
    1: "unit_mass us t = (Inr m, t1)" and 2: "unit_length us t1 = (Inr l, t2)"
    and 3: "py_power us l 2 = Inr l2" and 4: "py_times us m l2 = Inr ml2"
    and 5: "unit_time us t2 = (Inr tm, t3)" and 6: "py_power us tm 2 = Inr tm2"
    and 7: "py_over us ml2 tm2 = Inr u" and 8: "t' = t3\<lparr>t_unit_energy := u\<rparr>"
    unfolding unit_energy_def
    by (auto simp: lift_result_apply elim!: and_then_InrE)
  then show ?thesis
    using py_power_unit [OF 3] py_times_unit [OF 4] py_power_unit [OF 6] py_over_unit [OF 7] by auto
qed

lemma momentum_step_value:
  assumes "fst (and_then (unit_mass us) (\<lambda>m.
            and_then (unit_velocity us) (\<lambda>v.
            and_then (lift_result (py_times us m v)) (\<lambda>p.
            (\<lambda>t. (Inr (t\<lparr>t_unit_momentum := p\<rparr>), t))))) t0) = Inr t1"
    and "t_unit_mass t0 = PyUnit dalton"
  shows "\<exists>v. t_unit_mass t1 = PyUnit dalton \<and> t_unit_velocity t1 = PyUnit v
     \<and> t_unit_momentum t1 = PyUnit (unit_times us dalton v)
     \<and> t_unit_energy t1 = t_unit_energy t0
     \<and> (t_unit_velocity t0 \<noteq> PyNone \<longrightarrow> t_unit_velocity t0 = PyUnit v)"
proof -
  let ?m = "and_then (unit_mass us) (\<lambda>m.
            and_then (unit_velocity us) (\<lambda>v.
            and_then (lift_result (py_times us m v)) (\<lambda>p.
            (\<lambda>t. (Inr (t\<lparr>t_unit_momentum := p\<rparr>), t)))))"
  obtain t2 where "?m t0 = (Inr t1, t2)" using assms(1) by (cases "?m t0") simp
  then obtain m ta v tb p where
    1: "unit_mass us t0 = (Inr m, ta)" and 2: "unit_velocity us ta = (Inr v, tb)"
    and 3: "py_times us m v = Inr p" and 4: "t1 = tb\<lparr>t_unit_momentum := p\<rparr>"
    by (auto simp: lift_result_apply elim!: and_then_InrE)
  have m: "m = PyUnit dalton" "ta = t0"
    using 1 assms(2) by (auto simp: unit_mass_def)
  from unit_velocity_value [OF 2] py_times_unit [OF 3] m 4 assms(2) show ?thesis by auto
qed

lemma TrajectoryAnalyzer_init_units:
  assumes "TrajectoryAnalyzer_init us p v ts an mi cm c lj bv av di ba ul ut uv ue ua h = (Inr tr, h')"
  shows "(\<exists>uv'. convert_to_unit us uv ''L.T^-1'' ''unit_velocity'' = Inr uv'
             \<and> (uv' \<noteq> PyNone \<longrightarrow> t_unit_velocity tr = uv'))
     \<and> convert_to_unit us ue ''E'' ''unit_energy'' = Inr (t_unit_energy tr)
     \<and> (\<exists>m vel. t_unit_mass tr = PyUnit m \<and> t_unit_velocity tr = PyUnit vel
            \<and> t_unit_momentum tr = PyUnit (unit_times us m vel))"
  using assms unfolding TrajectoryAnalyzer_init_def
  apply (elim and_then_InrE)
  apply (simp only: lift_result_apply succeed_apply prod.inject sum.inject)
  apply (elim conjE)
  apply (drule momentum_step_value)
   apply simp
  apply (elim exE conjE)
  apply (thin_tac "masses_of _ _ = _")
  apply clarsimp
  done

lemma bench_trajectory_constructed:
  "TrajectoryAnalyzer_init stub_units (Some 0) (Some 1) (Some 2) [1, 8] [0, 0]
     [[False, True], [False, False]] (Some 3) (Some 4) (Some 5) (Some 6) (Some 7) (Some 8)
     (PyStr ''A'') (PyStr ''fs'') (PyStr ''m/s'') (PyStr ''J'') (PyStr ''rad'') bench_arrays
   = (Inr bench_trajectory, bench_store)"
  by (simp add: init_eval prog_defs bench_defs bench_trajectory_defs)

text \<open>
  C8, as stated, fails on the bench trajectory: the constructor has already stored the
  momentum unit, and the first access to the velocity unit and to the energy unit returns
  the declared unit (m/s, J), not the unit derived from the base units (A/fs,
  Da A^2/fs^2).
\<close>

theorem unit_fields_not_derived_counterexample:
  "TrajectoryAnalyzer_init stub_units (Some 0) (Some 1) (Some 2) [1, 8] [0, 0]
     [[False, True], [False, False]] (Some 3) (Some 4) (Some 5) (Some 6) (Some 7) (Some 8)
     (PyStr ''A'') (PyStr ''fs'') (PyStr ''m/s'') (PyStr ''J'') (PyStr ''rad'') bench_arrays
   = (Inr bench_trajectory, bench_store)
   \<and> t_unit_momentum bench_trajectory = PyUnit (Times (Base ''Da'') (Base ''m/s''))
   \<and> unit_velocity stub_units bench_trajectory = (Inr (PyUnit (Base ''m/s'')), bench_trajectory)
   \<and> PyUnit (Base ''m/s'') \<noteq> PyUnit (unit_over stub_units (Base ''A'') (Base ''fs''))
   \<and> unit_energy stub_units bench_trajectory = (Inr (PyUnit (Base ''J'')), bench_trajectory)
   \<and> PyUnit (Base ''J'') \<noteq>
       PyUnit (unit_over stub_units
                 (unit_times stub_units (Base ''Da'') (unit_power stub_units (Base ''A'') 2))
                 (unit_power stub_units (Base ''fs'') 2))"
proof -
  note bench_trajectory_constructed
  moreover have "t_unit_momentum bench_trajectory = PyUnit (Times (Base ''Da'') (Base ''m/s''))"
    by (simp add: bench_trajectory_def)
  moreover have "unit_velocity stub_units bench_trajectory = (Inr (PyUnit (Base ''m/s'')), bench_trajectory)"
    by (simp add: unit_velocity_def bench_trajectory_def)
  moreover have "unit_energy stub_units bench_trajectory = (Inr (PyUnit (Base ''J'')), bench_trajectory)"
    by (simp add: unit_energy_def bench_trajectory_def)
  ultimately show ?thesis by (simp add: stub_units_def)
qed

text \<open>
  C8, amended. Each of the properties \<open>unit_velocity\<close>, \<open>unit_momentum\<close>, \<open>unit_energy\<close>
  returns the stored unit, computing nothing and changing nothing, whenever the stored
  value is not \<^verbatim>\<open>None\<close>. Only when it is \<^verbatim>\<open>None\<close> is the unit derived from the base
  units (velocity = length / time, momentum = mass * velocity,
  energy = mass * length^2 / time^2) and stored, and every later access returns that
  stored unit. The constructor stores the declared velocity and energy units, as
  \<^verbatim>\<open>helpers.convert_to_unit\<close> returns them, and computes the momentum unit itself, as
  mass unit * velocity unit.
\<close>

theorem unit_properties_stored_or_derived:
  "(t_unit_velocity t \<noteq> PyNone \<longrightarrow> unit_velocity us t = (Inr (t_unit_velocity t), t))
   \<and> (t_unit_momentum t \<noteq> PyNone \<longrightarrow> unit_momentum us t = (Inr (t_unit_momentum t), t))
   \<and> (t_unit_energy t \<noteq> PyNone \<longrightarrow> unit_energy us t = (Inr (t_unit_energy t), t))
   \<and> (t_unit_velocity t = PyNone \<and> unit_velocity us t = (Inr u, t') \<longrightarrow>
        (\<exists>l tm. fst (unit_length us t) = Inr (PyUnit l)
            \<and> fst (unit_time us (snd (unit_length us t))) = Inr (PyUnit tm)
            \<and> u = PyUnit (unit_over us l tm))
        \<and> t_unit_velocity t' = u \<and> unit_velocity us t' = (Inr u, t'))
   \<and> (t_unit_momentum t = PyNone \<and> unit_momentum us t = (Inr u, t') \<longrightarrow>
        (\<exists>m v. fst (unit_mass us t) = Inr (PyUnit m)
            \<and> fst (unit_velocity us (snd (unit_mass us t))) = Inr (PyUnit v)
            \<and> u = PyUnit (unit_times us m v))
        \<and> t_unit_momentum t' = u \<and> unit_momentum us t' = (Inr u, t'))
   \<and> (t_unit_energy t = PyNone \<and> unit_energy us t = (Inr u, t') \<longrightarrow>
        (\<exists>m l tm. fst (unit_mass us t) = Inr (PyUnit m)
            \<and> fst (unit_length us (snd (unit_mass us t))) = Inr (PyUnit l)
            \<and> fst (unit_time us (snd (unit_length us (snd (unit_mass us t))))) = Inr (PyUnit tm)
            \<and> u = PyUnit (unit_over us (unit_times us m (unit_power us l 2)) (unit_power us tm 2)))
        \<and> t_unit_energy t' = u \<and> unit_energy us t' = (Inr u, t'))
   \<and> (TrajectoryAnalyzer_init us p v ts an mi cm c lj bv av di ba ul ut uv ue ua h = (Inr tr, h') \<longrightarrow>
        (\<exists>uv'. convert_to_unit us uv ''L.T^-1'' ''unit_velocity'' = Inr uv'
             \<and> (uv' \<noteq> PyNone \<longrightarrow> t_unit_velocity tr = uv'))
        \<and> convert_to_unit us ue ''E'' ''unit_energy'' = Inr (t_unit_energy tr)
        \<and> (\<exists>m vel. t_unit_mass tr = PyUnit m \<and> t_unit_velocity tr = PyUnit vel
               \<and> t_unit_momentum tr = PyUnit (unit_times us m vel)))"
proof (intro conjI impI)
  show "unit_velocity us t = (Inr (t_unit_velocity t), t)" if "t_unit_velocity t \<noteq> PyNone"
    using that by (rule unit_velocity_stored)
  show "unit_momentum us t = (Inr (t_unit_momentum t), t)" if "t_unit_momentum t \<noteq> PyNone"
    using that by (rule unit_momentum_stored)
  show "unit_energy us t = (Inr (t_unit_energy t), t)" if "t_unit_energy t \<noteq> PyNone"
    using that by (rule unit_energy_stored)
next
  assume a: "t_unit_velocity t = PyNone \<and> unit_velocity us t = (Inr u, t')"
  from unit_velocity_derived [of t us u t'] a
  show "\<exists>l tm. fst (unit_length us t) = Inr (PyUnit l)
            \<and> fst (unit_time us (snd (unit_length us t))) = Inr (PyUnit tm)
            \<and> u = PyUnit (unit_over us l tm)" and v: "t_unit_velocity t' = u"
    by auto
  from unit_velocity_derived [of t us u t'] a have "t_unit_velocity t' \<noteq> PyNone" by auto
  from unit_velocity_stored [OF this, of us] v show "unit_velocity us t' = (Inr u, t')" by simp
next
  assume a: "t_unit_momentum t = PyNone \<and> unit_momentum us t = (Inr u, t')"
  from unit_momentum_derived [of t us u t'] a
  show "\<exists>m v. fst (unit_mass us t) = Inr (PyUnit m)
            \<and> fst (unit_velocity us (snd (unit_mass us t))) = Inr (PyUnit v)
            \<and> u = PyUnit (unit_times us m v)" and v: "t_unit_momentum t' = u"
    by auto
  from unit_momentum_derived [of t us u t'] a have "t_unit_momentum t' \<noteq> PyNone" by auto
  from unit_momentum_stored [OF this, of us] v show "unit_momentum us t' = (Inr u, t')" by simp
next
  assume a: "t_unit_energy t = PyNone \<and> unit_energy us t = (Inr u, t')"
  from unit_energy_derived [of t us u t'] a
  show "\<exists>m l tm. fst (unit_mass us t) = Inr (PyUnit m)
            \<and> fst (unit_length us (snd (unit_mass us t))) = Inr (PyUnit l)
            \<and> fst (unit_time us (snd (unit_length us (snd (unit_mass us t))))) = Inr (PyUnit tm)
            \<and> u = PyUnit (unit_over us (unit_times us m (unit_power us l 2)) (unit_power us tm 2))"
    and v: "t_unit_energy t' = u"
    by auto
  from unit_energy_derived [of t us u t'] a have "t_unit_energy t' \<noteq> PyNone" by auto
  from unit_energy_stored [OF this, of us] v show "unit_energy us t' = (Inr u, t')" by simp
next
  assume a: "TrajectoryAnalyzer_init us p v ts an mi cm c lj bv av di ba ul ut uv ue ua h = (Inr tr, h')"
  from TrajectoryAnalyzer_init_units [OF a]
  show "\<exists>uv'. convert_to_unit us uv ''L.T^-1'' ''unit_velocity'' = Inr uv'
             \<and> (uv' \<noteq> PyNone \<longrightarrow> t_unit_velocity tr = uv')"
    and "convert_to_unit us ue ''E'' ''unit_energy'' = Inr (t_unit_energy tr)"
    and "\<exists>m vel. t_unit_mass tr = PyUnit m \<and> t_unit_velocity tr = PyUnit vel
               \<and> t_unit_momentum tr = PyUnit (unit_times us m vel)"
    by blast+
qed

theorem unit_properties_stored_or_derived_witness:
  "unit_velocity stub_units bench_trajectory = (Inr (PyUnit (Base ''m/s'')), bench_trajectory)
   \<and> unit_momentum stub_units bench_trajectory
       = (Inr (PyUnit (Times (Base ''Da'') (Base ''m/s''))), bench_trajectory)
   \<and> fst (unit_energy stub_units (bench_trajectory\<lparr>t_unit_energy := PyNone\<rparr>))
       = Inr (PyUnit (Over (Times (Base ''Da'') (Power (Base ''A'') 2)) (Power (Base ''fs'') 2)))
   \<and> unit_energy stub_units (snd (unit_energy stub_units (bench_trajectory\<lparr>t_unit_energy := PyNone\<rparr>)))
       = (Inr (PyUnit (Over (Times (Base ''Da'') (Power (Base ''A'') 2)) (Power (Base ''fs'') 2))),
          snd (unit_energy stub_units (bench_trajectory\<lparr>t_unit_energy := PyNone\<rparr>)))
   \<and> convert_to_unit stub_units (PyStr ''J'') ''E'' ''unit_energy''
       = Inr (t_unit_energy bench_trajectory)"
proof -
  let ?t = "bench_trajectory\<lparr>t_unit_energy := PyNone\<rparr>"
  let ?u = "PyUnit (Over (Times (Base ''Da'') (Power (Base ''A'') 2)) (Power (Base ''fs'') 2))"
  have s: "t_unit_velocity bench_trajectory \<noteq> PyNone \<and> t_unit_momentum bench_trajectory \<noteq> PyNone
      \<and> t_unit_velocity bench_trajectory = PyUnit (Base ''m/s'')
      \<and> t_unit_momentum bench_trajectory = PyUnit (Times (Base ''Da'') (Base ''m/s''))"
    by (simp add: bench_trajectory_def)
  have e: "t_unit_energy ?t = PyNone" by simp
  have f: "fst (unit_energy stub_units ?t) = Inr ?u"
    by (simp add: unit_energy_def unit_mass_def unit_length_def unit_time_def py_power_def
        py_times_def py_over_def prog_defs bench_trajectory_def stub_units_def)
  then have r: "unit_energy stub_units ?t = (Inr ?u, snd (unit_energy stub_units ?t))"
    by (metis prod.collapse)
  from unit_properties_stored_or_derived [of bench_trajectory stub_units] s
  have 1: "unit_velocity stub_units bench_trajectory = (Inr (PyUnit (Base ''m/s'')), bench_trajectory)"
    and 2: "unit_momentum stub_units bench_trajectory
       = (Inr (PyUnit (Times (Base ''Da'') (Base ''m/s''))), bench_trajectory)"
    by auto
  from unit_properties_stored_or_derived [of ?t stub_units ?u "snd (unit_energy stub_units ?t)"] e r
  have 3: "unit_energy stub_units (snd (unit_energy stub_units ?t))
      = (Inr ?u, snd (unit_energy stub_units ?t))" by blast
  from unit_properties_stored_or_derived [where us = stub_units and p = "Some 0" and v = "Some 1"
      and ts = "Some 2" and an = "[1, 8]" and mi = "[0, 0]"
      and cm = "[[False, True], [False, False]]" and c = "Some 3" and lj = "Some 4"
      and bv = "Some 5" and av = "Some 6" and di = "Some 7" and ba = "Some 8"
      and ul = "PyStr ''A''" and ut = "PyStr ''fs''" and uv = "PyStr ''m/s''"
      and ue = "PyStr ''J''" and ua = "PyStr ''rad''" and h = bench_arrays
      and tr = bench_trajectory and h' = bench_store]
    bench_trajectory_constructed
  have 4: "convert_to_unit stub_units (PyStr ''J'') ''E'' ''unit_energy''
       = Inr (t_unit_energy bench_trajectory)" by blast
  from 1 2 f 3 4 show ?thesis by blast
qed

end
